theory Spec2Isabelle
  imports Complex_Main
begin

text \<open>
  The test result computation engine of the HVAC commissioning logger: the numeric
  primitives and threshold checks of \<open>calculations.ts\<close>, the ten per-test-type routines
  and the dispatcher \<open>computeTestResult\<close> of \<open>test-computations.ts\<close>, and then the
  properties proved of them.
\<close>

section \<open>JavaScript numbers\<close>

text \<open>
  A value held in a number-typed slot at run time.  \<open>Fin x\<close> is the finite number \<open>x\<close>,
  \<open>Fin 0\<close> being \<open>+0\<close>; \<open>NegZero\<close> is \<open>-0\<close>; \<open>Infinity\<close>, \<open>-Infinity\<close> and \<open>NaN\<close> are
  the special values of IEEE-754.  \<open>Undefined\<close> is what reading a field that an object
  lacks, or an omitted argument, yields; arithmetic converts it to \<open>NaN\<close> (ToNumber).

  The operations below give the exact result of an operation on finite operands, with
  the sign of a zero result and the treatment of zeros, infinities and \<open>NaN\<close> as IEEE-754
  has them.  They do not round, and so do not overflow: the program's operation is the
  exact one followed by the rounding \<open>binary64\<close> of the section on rounding, which also
  yields the infinities on overflow and a signed zero on underflow.  The definitions
  that carry the suffix \<open>_rounded\<close> take the rounding as a parameter; those without it
  are the same functions in exact arithmetic.
\<close>

datatype number = Fin real | NegZero | PosInfinity | NegInfinity | NaN | Undefined

fun isNaN :: "number \<Rightarrow> bool" where
  "isNaN NaN = True"
| "isNaN Undefined = True"
| "isNaN _ = False"

instantiation number :: "{uminus, plus, minus, times, inverse, ord}"
begin

fun uminus_number :: "number \<Rightarrow> number" where
  "uminus_number (Fin a) = (if a = 0 then NegZero else Fin (- a))"
| "uminus_number NegZero = Fin 0"
| "uminus_number PosInfinity = NegInfinity"
| "uminus_number NegInfinity = PosInfinity"
| "uminus_number NaN = NaN"
| "uminus_number Undefined = NaN"

fun plus_number :: "number \<Rightarrow> number \<Rightarrow> number" where
  "plus_number (Fin a) (Fin b) = Fin (a + b)"
| "plus_number (Fin a) NegZero = Fin a"
| "plus_number NegZero (Fin b) = Fin b"
| "plus_number NegZero NegZero = NegZero"
| "plus_number (Fin a) PosInfinity = PosInfinity"
| "plus_number (Fin a) NegInfinity = NegInfinity"
| "plus_number NegZero PosInfinity = PosInfinity"
| "plus_number NegZero NegInfinity = NegInfinity"
| "plus_number PosInfinity (Fin b) = PosInfinity"
| "plus_number PosInfinity NegZero = PosInfinity"
| "plus_number PosInfinity PosInfinity = PosInfinity"
| "plus_number NegInfinity (Fin b) = NegInfinity"
| "plus_number NegInfinity NegZero = NegInfinity"
| "plus_number NegInfinity NegInfinity = NegInfinity"
| "plus_number _ _ = NaN"

definition minus_number :: "number \<Rightarrow> number \<Rightarrow> number" where
  "minus_number x y = x + (- y)"

fun times_number :: "number \<Rightarrow> number \<Rightarrow> number" where
  "times_number (Fin a) (Fin b) =
     (if a * b = 0 then (if (a < 0) \<noteq> (b < 0) then NegZero else Fin 0) else Fin (a * b))"
| "times_number (Fin a) NegZero = (if a < 0 then Fin 0 else NegZero)"
| "times_number NegZero (Fin b) = (if b < 0 then Fin 0 else NegZero)"
| "times_number NegZero NegZero = Fin 0"
| "times_number (Fin a) PosInfinity =
     (if a = 0 then NaN else if 0 < a then PosInfinity else NegInfinity)"
| "times_number (Fin a) NegInfinity =
     (if a = 0 then NaN else if 0 < a then NegInfinity else PosInfinity)"
| "times_number PosInfinity (Fin b) =
     (if b = 0 then NaN else if 0 < b then PosInfinity else NegInfinity)"
| "times_number NegInfinity (Fin b) =
     (if b = 0 then NaN else if 0 < b then NegInfinity else PosInfinity)"
| "times_number PosInfinity PosInfinity = PosInfinity"
| "times_number PosInfinity NegInfinity = NegInfinity"
| "times_number NegInfinity PosInfinity = NegInfinity"
| "times_number NegInfinity NegInfinity = PosInfinity"
| "times_number _ _ = NaN"

fun divide_number :: "number \<Rightarrow> number \<Rightarrow> number" where
  "divide_number (Fin a) (Fin b) =
     (if b = 0 then (if a = 0 then NaN else if 0 < a then PosInfinity else NegInfinity)
      else if a = 0 then (if b < 0 then NegZero else Fin 0)
      else Fin (a / b))"
| "divide_number (Fin a) NegZero =
     (if a = 0 then NaN else if 0 < a then NegInfinity else PosInfinity)"
| "divide_number NegZero (Fin b) = (if b = 0 then NaN else if b < 0 then Fin 0 else NegZero)"
| "divide_number NegZero NegZero = NaN"
| "divide_number (Fin a) PosInfinity = (if a < 0 then NegZero else Fin 0)"
| "divide_number (Fin a) NegInfinity = (if a < 0 then Fin 0 else NegZero)"
| "divide_number NegZero PosInfinity = NegZero"
| "divide_number NegZero NegInfinity = Fin 0"
| "divide_number PosInfinity (Fin b) = (if b < 0 then NegInfinity else PosInfinity)"
| "divide_number PosInfinity NegZero = NegInfinity"
| "divide_number NegInfinity (Fin b) = (if b < 0 then PosInfinity else NegInfinity)"
| "divide_number NegInfinity NegZero = PosInfinity"
| "divide_number _ _ = NaN"

definition inverse_number :: "number \<Rightarrow> number" where
  "inverse_number x = divide (Fin 1) x"

fun less_eq_number :: "number \<Rightarrow> number \<Rightarrow> bool" where
  "less_eq_number (Fin a) (Fin b) = (a \<le> b)"
| "less_eq_number (Fin a) NegZero = (a \<le> 0)"
| "less_eq_number NegZero (Fin b) = (0 \<le> b)"
| "less_eq_number NegZero NegZero = True"
| "less_eq_number (Fin a) PosInfinity = True"
| "less_eq_number NegZero PosInfinity = True"
| "less_eq_number NegInfinity (Fin b) = True"
| "less_eq_number NegInfinity NegZero = True"
| "less_eq_number NegInfinity NegInfinity = True"
| "less_eq_number NegInfinity PosInfinity = True"
| "less_eq_number PosInfinity PosInfinity = True"
| "less_eq_number _ _ = False"

fun less_number :: "number \<Rightarrow> number \<Rightarrow> bool" where
  "less_number (Fin a) (Fin b) = (a < b)"
| "less_number (Fin a) NegZero = (a < 0)"
| "less_number NegZero (Fin b) = (0 < b)"
| "less_number (Fin a) PosInfinity = True"
| "less_number NegZero PosInfinity = True"
| "less_number NegInfinity (Fin b) = True"
| "less_number NegInfinity NegZero = True"
| "less_number NegInfinity PosInfinity = True"
| "less_number _ _ = False"

instance ..

end

text \<open>\<open>x === y\<close> on numbers: \<open>NaN\<close> equals nothing, not even itself, and \<open>-0\<close> equals
  \<open>+0\<close>.\<close>

fun strict_eq :: "number \<Rightarrow> number \<Rightarrow> bool" where
  "strict_eq (Fin a) (Fin b) = (a = b)"
| "strict_eq (Fin a) NegZero = (a = 0)"
| "strict_eq NegZero (Fin b) = (b = 0)"
| "strict_eq NegZero NegZero = True"
| "strict_eq PosInfinity PosInfinity = True"
| "strict_eq NegInfinity NegInfinity = True"
| "strict_eq Undefined Undefined = True"
| "strict_eq _ _ = False"

text \<open>ToBoolean on a number slot, and \<open>x || y\<close>: both zeros, \<open>NaN\<close> and \<open>undefined\<close> are
  falsy.\<close>

fun truthy :: "number \<Rightarrow> bool" where
  "truthy (Fin a) = (a \<noteq> 0)"
| "truthy NegZero = False"
| "truthy PosInfinity = True"
| "truthy NegInfinity = True"
| "truthy NaN = False"
| "truthy Undefined = False"

definition or_else :: "number \<Rightarrow> number \<Rightarrow> number" where
  "or_else x y = (if truthy x then x else y)"

text \<open>A parameter with a default value: the default is taken exactly when the argument
  is \<open>undefined\<close>.\<close>

definition default_arg :: "number \<Rightarrow> number \<Rightarrow> number" where
  "default_arg x d = (if x = Undefined then d else x)"

fun Math_log :: "number \<Rightarrow> number" where
  "Math_log (Fin a) = (if a < 0 then NaN else if a = 0 then NegInfinity else Fin (ln a))"
| "Math_log NegZero = NegInfinity"
| "Math_log PosInfinity = PosInfinity"
| "Math_log _ = NaN"

fun Math_sqrt :: "number \<Rightarrow> number" where
  "Math_sqrt (Fin a) = (if a < 0 then NaN else Fin (sqrt a))"
| "Math_sqrt NegZero = NegZero"
| "Math_sqrt PosInfinity = PosInfinity"
| "Math_sqrt _ = NaN"

text \<open>\<open>Math.pow(x, n)\<close> for a literal natural exponent \<open>n\<close> (the source uses 2).\<close>

fun Math_pow :: "number \<Rightarrow> nat \<Rightarrow> number" where
  "Math_pow x 0 = Fin 1"
| "Math_pow (Fin a) n = Fin (a ^ n)"
| "Math_pow NegZero n = (if even n then Fin 0 else NegZero)"
| "Math_pow PosInfinity n = PosInfinity"
| "Math_pow NegInfinity n = (if even n then PosInfinity else NegInfinity)"
| "Math_pow _ n = NaN"

fun Math_abs :: "number \<Rightarrow> number" where
  "Math_abs (Fin a) = Fin \<bar>a\<bar>"
| "Math_abs NegZero = Fin 0"
| "Math_abs PosInfinity = PosInfinity"
| "Math_abs NegInfinity = PosInfinity"
| "Math_abs _ = NaN"

text \<open>\<open>Math.min(...values)\<close> and \<open>Math.max(...values)\<close>: \<open>NaN\<close> as soon as one argument
  converts to \<open>NaN\<close>; with no argument, \<open>Infinity\<close> and \<open>-Infinity\<close>; \<open>-0\<close> counts as
  smaller than \<open>+0\<close>.  An engine accepts only so many arguments in a call, and a spread
  call on a longer array throws a RangeError: that limit is a parameter of
  \<open>calculateStats_rounded\<close> below, and these two functions are the calls within it.\<close>

definition min2 :: "number \<Rightarrow> number \<Rightarrow> number" where
  "min2 x y =
     (if isNaN x \<or> isNaN y then NaN
      else if y < x then y else if x < y then x
      else if y = NegZero then y else x)"

definition max2 :: "number \<Rightarrow> number \<Rightarrow> number" where
  "max2 x y =
     (if isNaN x \<or> isNaN y then NaN
      else if x < y then y else if y < x then x
      else if x = NegZero then y else x)"

definition Math_min :: "number list \<Rightarrow> number" where
  "Math_min values = foldl min2 PosInfinity values"

definition Math_max :: "number list \<Rightarrow> number" where
  "Math_max values = foldl max2 NegInfinity values"

section \<open>Numeric primitives (calculations.ts)\<close>

definition calculateDewPoint :: "number \<Rightarrow> number \<Rightarrow> number" where
  "calculateDewPoint tempF rh =
     (let tempC = (tempF - Fin 32) * Fin 5 / Fin 9;
          a = Fin 17.625;
          b = Fin 243.04;
          gamma = Math_log (rh / Fin 100) + (a * tempC) / (b + tempC);
          dewPointC = (b * gamma) / (a - gamma)
      in (dewPointC * Fin 9 / Fin 5) + Fin 32)"

definition calculateCfmPerTon :: "number \<Rightarrow> number \<Rightarrow> number" where
  "calculateCfmPerTon cfm tons = (if strict_eq tons (Fin 0) then Fin 0 else cfm / tons)"

definition getSaturationTemp :: "number \<Rightarrow> string \<Rightarrow> number" where
  "getSaturationTemp pressure refrigerant =
     (if refrigerant = ''R-410A'' then
        (if pressure \<le> Fin 50 then Fin (- 20) + (pressure * Fin 1.6)
         else if pressure \<le> Fin 100 then Fin 60 + ((pressure - Fin 50) * Fin 1.2)
         else if pressure \<le> Fin 200 then Fin 120 + ((pressure - Fin 100) * Fin 0.8)
         else Fin 200 + ((pressure - Fin 200) * Fin 0.4))
      else Fin 32 + (pressure * Fin 0.5))"

text \<open>The third parameter has the default \<open>'R-410A'\<close>: \<open>None\<close> is the omitted argument.\<close>

definition refrigerant_arg :: "string option \<Rightarrow> string" where
  "refrigerant_arg r = (case r of None \<Rightarrow> ''R-410A'' | Some s \<Rightarrow> s)"

definition calculateSuperheat :: "number \<Rightarrow> number \<Rightarrow> string option \<Rightarrow> number" where
  "calculateSuperheat suctionLineTemp suctionPressure refrigerant =
     (let satTemp = getSaturationTemp suctionPressure (refrigerant_arg refrigerant)
      in suctionLineTemp - satTemp)"

definition calculateSubcooling :: "number \<Rightarrow> number \<Rightarrow> string option \<Rightarrow> number" where
  "calculateSubcooling liquidLineTemp liquidPressure refrigerant =
     (let satTemp = getSaturationTemp liquidPressure (refrigerant_arg refrigerant)
      in satTemp - liquidLineTemp)"

definition calculatePressureDecayRate :: "number \<Rightarrow> number \<Rightarrow> number \<Rightarrow> number" where
  "calculatePressureDecayRate startPressure endPressure timeSeconds =
     (if strict_eq timeSeconds (Fin 0) then Fin 0
      else let decayAmount = startPressure - endPressure
           in (decayAmount / timeSeconds) * Fin 60)"

record stats =
  stat_min :: number
  stat_max :: number
  avg :: number
  stdDev :: number

definition calculateStats :: "number list \<Rightarrow> stats" where
  "calculateStats values =
     (if length values = 0 then
        \<lparr>stat_min = Fin 0, stat_max = Fin 0, avg = Fin 0, stdDev = Fin 0\<rparr>
      else
        let mn = Math_min values;
            mx = Math_max values;
            av = foldl (\<lambda>sum val. sum + val) (Fin 0) values / Fin (real (length values));
            variance = foldl (\<lambda>sum val. sum + Math_pow (val - av) 2) (Fin 0) values
                         / Fin (real (length values));
            sd = Math_sqrt variance
        in \<lparr>stat_min = mn, stat_max = mx, avg = av, stdDev = sd\<rparr>)"

section \<open>Check results and threshold checks (calculations.ts)\<close>

text \<open>
  Texts are kept as the template literals that build them: literal characters, a
  character outside ASCII by its code point, \<open>${x}\<close> for a number \<open>x\<close>, and
  \<open>x.toFixed(n)\<close>.  The decimal rendering of a number is not computed.
\<close>

datatype piece = Lit string | Uni nat | Show number | Fixed number nat

type_synonym template = "piece list"

datatype cvalue = VNum number | VStr string

record CheckResult =
  chk_pass :: bool
  chk_value :: cvalue
  chk_target :: template
  chk_message :: template

definition checkBuildingPressure :: "number \<Rightarrow> CheckResult" where
  "checkBuildingPressure deltaP =
     (let mn = Fin 0.02;
          mx = Fin 0.05;
          pass = (deltaP \<ge> mn \<and> deltaP \<le> mx)
      in \<lparr>chk_pass = pass,
          chk_value = VNum deltaP,
          chk_target = [Show mn, Lit '' - '', Show mx, Lit '' in. w.c.''],
          chk_message =
            (if pass then [Lit ''Building pressure within acceptable range'']
             else if deltaP < mn
               then [Lit ''Building pressure too low - insufficient pressurization'']
               else [Lit ''Building pressure too high - over pressurized''])\<rparr>)"

definition checkCfmPerTon :: "number \<Rightarrow> CheckResult" where
  "checkCfmPerTon cfmPerTon =
     (let mn = Fin 350;
          mx = Fin 400;
          pass = (cfmPerTon \<ge> mn \<and> cfmPerTon \<le> mx)
      in \<lparr>chk_pass = pass,
          chk_value = VNum cfmPerTon,
          chk_target = [Show mn, Lit '' - '', Show mx, Lit '' CFM/ton''],
          chk_message =
            (if pass then [Lit ''CFM/ton within acceptable range for dehumidification'']
             else if cfmPerTon < mn
               then [Lit ''CFM/ton too low - may indicate airflow restriction'']
               else [Lit ''CFM/ton too high - poor dehumidification performance''])\<rparr>)"

definition checkSupplyDewPoint :: "number \<Rightarrow> CheckResult" where
  "checkSupplyDewPoint supplyDP =
     (let mn = Fin 50;
          mx = Fin 55;
          pass = (supplyDP \<ge> mn \<and> supplyDP \<le> mx)
      in \<lparr>chk_pass = pass,
          chk_value = VNum supplyDP,
          chk_target = [Show mn, Lit '' - '', Show mx, Uni 176, Lit ''F''],
          chk_message =
            (if pass then [Lit ''Supply dew point within acceptable range'']
             else if supplyDP < mn
               then [Lit ''Supply dew point too low - over-dehumidification'']
               else [Lit ''Supply dew point too high - insufficient dehumidification''])\<rparr>)"

text \<open>The acceptance range \<open>(min, max)\<close> after the adjustment for outdoor conditions:
  the two \<open>let\<close> variables of the source and its \<open>if / else if\<close>.\<close>

definition superheatRange :: "number \<Rightarrow> number \<times> number" where
  "superheatRange outdoorTemp =
     (if outdoorTemp > Fin 100 then (Fin 6, Fin 12)
      else if outdoorTemp < Fin 80 then (Fin 10, Fin 18)
      else (Fin 8, Fin 15))"

definition checkSuperheat :: "number \<Rightarrow> number \<Rightarrow> CheckResult" where
  "checkSuperheat superheat outdoorTemp_arg =
     (let outdoorTemp = default_arg outdoorTemp_arg (Fin 95);
          (mn, mx) = superheatRange outdoorTemp;
          pass = (superheat \<ge> mn \<and> superheat \<le> mx)
      in \<lparr>chk_pass = pass,
          chk_value = VNum superheat,
          chk_target = [Show mn, Lit '' - '', Show mx, Uni 176, Lit ''F''],
          chk_message =
            (if pass then [Lit ''Superheat within acceptable range'']
             else if superheat < mn
               then [Lit ''Superheat too low - possible refrigerant overcharge or TXV issues'']
               else [Lit ''Superheat too high - possible refrigerant undercharge or restriction''])\<rparr>)"

definition subcoolingRange :: "number \<Rightarrow> number \<times> number" where
  "subcoolingRange outdoorTemp =
     (if outdoorTemp > Fin 100 then (Fin 10, Fin 18)
      else if outdoorTemp < Fin 80 then (Fin 6, Fin 12)
      else (Fin 8, Fin 15))"

definition checkSubcooling :: "number \<Rightarrow> number \<Rightarrow> CheckResult" where
  "checkSubcooling subcooling outdoorTemp_arg =
     (let outdoorTemp = default_arg outdoorTemp_arg (Fin 95);
          (mn, mx) = subcoolingRange outdoorTemp;
          pass = (subcooling \<ge> mn \<and> subcooling \<le> mx)
      in \<lparr>chk_pass = pass,
          chk_value = VNum subcooling,
          chk_target = [Show mn, Lit '' - '', Show mx, Uni 176, Lit ''F''],
          chk_message =
            (if pass then [Lit ''Subcooling within acceptable range'']
             else if subcooling < mn
               then [Lit ''Subcooling too low - possible refrigerant undercharge'']
               else [Lit ''Subcooling too high - possible refrigerant overcharge or restriction''])\<rparr>)"

section \<open>Readings, weather context and computed results (test-computations.ts)\<close>

text \<open>
  The dispatcher receives \<open>reading: any\<close>; the casts \<open>reading as BuildingPressureData\<close>
  and so on do nothing at run time, so every routine reads its fields from the same
  object.  The record lists every field that some routine reads.  A field that the
  object lacks is \<open>Undefined\<close> (numbers) or \<open>None\<close> (booleans, strings, arrays); a field
  that is present is taken to hold a value of the type its schema gives it.  The field
  \<open>method\<close> of the economizer reading is named \<open>test_method\<close> here.
\<close>

record sample =
  db_F :: number
  rh_pct :: number

record reading =
  deltaP_inwc :: number
  startDeltaP :: number
  endDeltaP :: number
  decaySeconds :: number
  returnStatic_inwc :: number
  supplyStatic_inwc :: number
  smokeLeaksFound :: "bool option"
  leakLocations :: "string list option"
  plasticTest :: "string option"
  supplyCFM :: number
  tons :: number
  returnCFM :: number
  extStatic_inwc :: number
  suctionLineTemp_F :: number
  suctionPSI :: number
  liquidLineTemp_F :: number
  liquidPSI :: number
  outdoorDB_F :: number
  returnDB_F :: number
  returnRH_pct :: number
  supplyDB_F :: number
  supplyRH_pct :: number
  condensateVolume_oz_per_30min :: number
  airflowCFM :: number
  staticPressure_inwc :: number
  commandedPct :: number
  leakageObserved :: "bool option"
  test_method :: "string option"
  gridSamples :: "sample list option"
  returnDewPoint_F :: number

record weatherData =
  outdoorTemp :: number
  outdoorRH :: number

record ComputedResult =
  calculations :: "(string \<times> number) list"
  checks :: "(string \<times> CheckResult) list"
  pass :: bool
  summary :: template

datatype error = UnknownTestType string | TypeError | RangeError

text \<open>ToBoolean on a boolean slot: a missing field is falsy.\<close>

definition truthy_bool :: "bool option \<Rightarrow> bool" where
  "truthy_bool b = (b = Some True)"

text \<open>\<open>${s}\<close> for a string slot: a missing field prints as \<open>undefined\<close>.\<close>

definition show_string :: "string option \<Rightarrow> piece" where
  "show_string s = Lit (case s of None \<Rightarrow> ''undefined'' | Some str \<Rightarrow> str)"

text \<open>\<open>Array.prototype.join\<close> and \<open>String.prototype.toLowerCase\<close> (on ASCII letters).\<close>

fun join :: "string \<Rightarrow> string list \<Rightarrow> string" where
  "join sep [] = []"
| "join sep [x] = x"
| "join sep (x # y # ys) = x @ sep @ join sep (y # ys)"

definition toLowerCase :: "string \<Rightarrow> string" where
  "toLowerCase str =
     map (\<lambda>c. let n = (of_char c :: nat) in if 65 \<le> n \<and> n \<le> 90 then char_of (n + 32) else c) str"

definition computeBuildingPressure :: "reading \<Rightarrow> ComputedResult" where
  "computeBuildingPressure data =
     (let check = checkBuildingPressure (deltaP_inwc data)
      in \<lparr>calculations = [(''pressure_inwc'', deltaP_inwc data)],
          checks = [(''building_pressure'', check)],
          pass = chk_pass check,
          summary = chk_message check\<rparr>)"

definition computePressureDecay :: "reading \<Rightarrow> ComputedResult" where
  "computePressureDecay data =
     (let decayRate = calculatePressureDecayRate (startDeltaP data) (endDeltaP data) (decaySeconds data);
          totalDecay = startDeltaP data - endDeltaP data;
          acceptableDecayRate = Fin 0.01;
          ok = (decayRate \<le> acceptableDecayRate)
      in \<lparr>calculations =
            [(''decay_rate_per_min'', decayRate),
             (''total_decay_inwc'', totalDecay),
             (''decay_percentage'', (totalDecay / startDeltaP data) * Fin 100)],
          checks =
            [(''decay_rate'',
              \<lparr>chk_pass = ok,
               chk_value = VNum decayRate,
               chk_target = [Uni 8804, Lit '' '', Show acceptableDecayRate, Lit '' in. w.c./min''],
               chk_message =
                 (if ok then [Lit ''Pressure decay within acceptable limits'']
                  else [Lit ''Excessive pressure decay - check for envelope leaks''])\<rparr>)],
          pass = ok,
          summary =
            (if ok
             then [Lit ''Pressure decay rate of '', Fixed decayRate 4, Lit '' in. w.c./min is acceptable'']
             else [Lit ''Pressure decay rate of '', Fixed decayRate 4, Lit '' in. w.c./min exceeds limit''])\<rparr>)"

definition computeReturnCurbLeakage :: "reading \<Rightarrow> ComputedResult" where
  "computeReturnCurbLeakage data =
     (let pressureDiff = Math_abs (returnStatic_inwc data - supplyStatic_inwc data);
          maxDiff = Fin 0.1;
          pressurePass = (pressureDiff \<le> maxDiff);
          leakPass = (\<not> truthy_bool (smokeLeaksFound data));
          overallPass = (pressurePass \<and> leakPass)
      in \<lparr>calculations =
            [(''return_static_inwc'', returnStatic_inwc data),
             (''supply_static_inwc'', supplyStatic_inwc data),
             (''pressure_difference_inwc'', pressureDiff)],
          checks =
            [(''pressure_balance'',
              \<lparr>chk_pass = pressurePass,
               chk_value = VNum pressureDiff,
               chk_target = [Uni 8804, Lit '' '', Show maxDiff, Lit '' in. w.c.''],
               chk_message =
                 (if pressurePass then [Lit ''Return/supply pressure difference within limits'']
                  else [Lit ''Excessive pressure imbalance detected''])\<rparr>),
             (''smoke_leaks'',
              \<lparr>chk_pass = leakPass,
               chk_value = VStr (if truthy_bool (smokeLeaksFound data) then ''FOUND'' else ''NONE''),
               chk_target = [Lit ''NONE''],
               chk_message =
                 (if leakPass then [Lit ''No smoke leaks detected'']
                  else [Lit ''Smoke leaks found at: '',
                        Lit (case leakLocations data of
                               None \<Rightarrow> ''unspecified locations''
                             | Some ls \<Rightarrow>
                                 if join '', '' ls = [] then ''unspecified locations''
                                 else join '', '' ls)])\<rparr>)],
          pass = overallPass,
          summary =
            (if overallPass then [Lit ''Return/curb leakage test passed'']
             else [Lit ''Return/curb leakage issues detected''])\<rparr>)"

text \<open>When the verdict is negative the message calls \<open>data.plasticTest.toLowerCase()\<close>,
  which throws a TypeError on a missing field; a missing field never equals \<open>'DRY'\<close>.\<close>

definition computeSlabWallMoisture :: "reading \<Rightarrow> error + ComputedResult" where
  "computeSlabWallMoisture data =
     (let ok = (plasticTest data = Some ''DRY'')
      in case plasticTest data of
           None \<Rightarrow> Inl TypeError
         | Some pt \<Rightarrow>
             Inr \<lparr>calculations = [],
                  checks =
                    [(''plastic_test'',
                      \<lparr>chk_pass = ok,
                       chk_value = VStr pt,
                       chk_target = [Lit ''DRY''],
                       chk_message =
                         (if ok then [Lit ''No moisture issues detected under plastic test'']
                          else [Lit ''Moisture detected: '', Lit (toLowerCase pt)])\<rparr>)],
                  pass = ok,
                  summary =
                    (if ok then [Lit ''No moisture issues detected'']
                     else [Lit ''Moisture issues detected: '', Lit (toLowerCase pt)])\<rparr>)"

definition computeAirflowStatic :: "reading \<Rightarrow> ComputedResult" where
  "computeAirflowStatic data =
     (let cfmPerTon = calculateCfmPerTon (supplyCFM data) (tons data);
          cfmCheck = checkCfmPerTon cfmPerTon;
          staticPass = (extStatic_inwc data \<ge> Fin 0.3 \<and> extStatic_inwc data \<le> Fin 1.5)
      in \<lparr>calculations =
            [(''cfm_per_ton'', cfmPerTon),
             (''supply_cfm'', supplyCFM data),
             (''return_cfm'', or_else (returnCFM data) (Fin 0)),
             (''external_static_inwc'', extStatic_inwc data)],
          checks =
            [(''cfm_per_ton'', cfmCheck),
             (''external_static'',
              \<lparr>chk_pass = staticPass,
               chk_value = VNum (extStatic_inwc data),
               chk_target = [Lit ''0.3 - 1.5 in. w.c.''],
               chk_message =
                 (if staticPass then [Lit ''External static pressure within normal range'']
                  else if extStatic_inwc data < Fin 0.3
                    then [Lit ''External static pressure too low'']
                    else [Lit ''External static pressure too high - check for restrictions''])\<rparr>)],
          pass = (chk_pass cfmCheck \<and> staticPass),
          summary =
            [Lit ''CFM/ton: '', Fixed cfmPerTon 0, Lit '', Static: '',
             Show (extStatic_inwc data), Uni 34, Lit '' w.c.'']\<rparr>)"

definition computeRefrigerantCircuit :: "reading \<Rightarrow> number \<Rightarrow> ComputedResult" where
  "computeRefrigerantCircuit data outdoorTemp_arg =
     (let superheat = calculateSuperheat (suctionLineTemp_F data) (suctionPSI data) None;
          subcooling = calculateSubcooling (liquidLineTemp_F data) (liquidPSI data) None;
          shCheck = checkSuperheat superheat (or_else outdoorTemp_arg (outdoorDB_F data));
          scCheck = checkSubcooling subcooling (or_else outdoorTemp_arg (outdoorDB_F data))
      in \<lparr>calculations =
            [(''superheat_F'', superheat),
             (''subcooling_F'', subcooling),
             (''suction_psi'', suctionPSI data),
             (''liquid_psi'', liquidPSI data),
             (''suction_temp_F'', suctionLineTemp_F data),
             (''liquid_temp_F'', liquidLineTemp_F data)],
          checks = [(''superheat'', shCheck), (''subcooling'', scCheck)],
          pass = (chk_pass shCheck \<and> chk_pass scCheck),
          summary =
            [Lit ''SH: '', Fixed superheat 1, Uni 176, Lit ''F, SC: '',
             Fixed subcooling 1, Uni 176, Lit ''F'']\<rparr>)"

definition computeCoilPerformance :: "reading \<Rightarrow> ComputedResult" where
  "computeCoilPerformance data =
     (let returnDP = calculateDewPoint (returnDB_F data) (returnRH_pct data);
          supplyDP = calculateDewPoint (supplyDB_F data) (supplyRH_pct data);
          dewPointDrop = returnDP - supplyDP;
          tempDrop = returnDB_F data - supplyDB_F data;
          supplyDPCheck = checkSupplyDewPoint supplyDP;
          tempDropPass = (tempDrop \<ge> Fin 8 \<and> tempDrop \<le> Fin 25)
      in \<lparr>calculations =
            [(''return_dew_point_F'', returnDP),
             (''supply_dew_point_F'', supplyDP),
             (''dew_point_drop_F'', dewPointDrop),
             (''temperature_drop_F'', tempDrop),
             (''condensate_oz_per_30min'', or_else (condensateVolume_oz_per_30min data) (Fin 0))],
          checks =
            [(''supply_dew_point'', supplyDPCheck),
             (''temperature_drop'',
              \<lparr>chk_pass = tempDropPass,
               chk_value = VNum tempDrop,
               chk_target = [Lit ''8 - 25'', Uni 176, Lit ''F''],
               chk_message =
                 (if tempDropPass then [Lit ''Temperature drop within normal range'']
                  else if tempDrop < Fin 8
                    then [Lit ''Insufficient cooling - check refrigerant charge'']
                    else [Lit ''Excessive temperature drop - check airflow''])\<rparr>)],
          pass = (chk_pass supplyDPCheck \<and> tempDropPass),
          summary =
            [Lit ''Supply DP: '', Fixed supplyDP 1, Uni 176, Lit ''F, '', Uni 916, Lit ''T: '',
             Fixed tempDrop 1, Uni 176, Lit ''F'']\<rparr>)"

definition computeFanEvapRecheck :: "reading \<Rightarrow> ComputedResult" where
  "computeFanEvapRecheck data =
     (let returnDP = calculateDewPoint (returnDB_F data) (returnRH_pct data);
          supplyDP = calculateDewPoint (supplyDB_F data) (supplyRH_pct data);
          supplyDPCheck = checkSupplyDewPoint supplyDP;
          staticPass = (staticPressure_inwc data \<ge> Fin 0.3 \<and> staticPressure_inwc data \<le> Fin 1.5)
      in \<lparr>calculations =
            [(''return_dew_point_F'', returnDP),
             (''supply_dew_point_F'', supplyDP),
             (''airflow_cfm'', airflowCFM data),
             (''static_pressure_inwc'', staticPressure_inwc data)],
          checks =
            [(''supply_dew_point'', supplyDPCheck),
             (''static_pressure'',
              \<lparr>chk_pass = staticPass,
               chk_value = VNum (staticPressure_inwc data),
               chk_target = [Lit ''0.3 - 1.5 in. w.c.''],
               chk_message =
                 (if staticPass then [Lit ''Static pressure acceptable'']
                  else [Lit ''Static pressure out of range''])\<rparr>)],
          pass = (chk_pass supplyDPCheck \<and> staticPass),
          summary = [Lit ''Fan/evap recheck - Supply DP: '', Fixed supplyDP 1, Uni 176, Lit ''F'']\<rparr>)"

definition computeEconomizerSeal :: "reading \<Rightarrow> ComputedResult" where
  "computeEconomizerSeal data =
     (let positionPass = (commandedPct data \<le> Fin 5);
          leakPass = (\<not> truthy_bool (leakageObserved data))
      in \<lparr>calculations = [(''commanded_position_pct'', commandedPct data)],
          checks =
            [(''damper_position'',
              \<lparr>chk_pass = positionPass,
               chk_value = VNum (commandedPct data),
               chk_target = [Lit ''0%''],
               chk_message =
                 (if positionPass then [Lit ''Economizer damper properly closed'']
                  else [Lit ''Economizer damper not fully closed''])\<rparr>),
             (''leakage_test'',
              \<lparr>chk_pass = leakPass,
               chk_value = VStr (if truthy_bool (leakageObserved data) then ''OBSERVED'' else ''NONE''),
               chk_target = [Lit ''NONE''],
               chk_message =
                 (if leakPass
                  then [Lit ''No leakage observed ('', show_string (test_method data), Lit '' test)'']
                  else [Lit ''Leakage observed during '', show_string (test_method data), Lit '' test''])\<rparr>)],
          pass = (positionPass \<and> leakPass),
          summary =
            (if leakPass then [Lit ''Economizer seal test passed'']
             else [Lit ''Economizer leakage detected''])\<rparr>)"

text \<open>\<open>data.gridSamples.map(...)\<close> throws a TypeError when the field is missing.\<close>

definition computeDistributionMixing :: "reading \<Rightarrow> error + ComputedResult" where
  "computeDistributionMixing data =
     (case gridSamples data of
        None \<Rightarrow> Inl TypeError
      | Some samples \<Rightarrow>
          let temperatures = map (\<lambda>s. db_F s) samples;
              humidities = map (\<lambda>s. rh_pct s) samples;
              dewPoints = map (\<lambda>s. calculateDewPoint (db_F s) (rh_pct s)) samples;
              tempStats = calculateStats temperatures;
              rhStats = calculateStats humidities;
              dpStats = calculateStats dewPoints;
              tempVariationPass = ((stat_max tempStats - stat_min tempStats) \<le> Fin 5);
              rhVariationPass = ((stat_max rhStats - stat_min rhStats) \<le> Fin 10)
          in Inr \<lparr>calculations =
                    [(''temp_min_F'', stat_min tempStats),
                     (''temp_max_F'', stat_max tempStats),
                     (''temp_avg_F'', avg tempStats),
                     (''temp_variation_F'', stat_max tempStats - stat_min tempStats),
                     (''rh_min_pct'', stat_min rhStats),
                     (''rh_max_pct'', stat_max rhStats),
                     (''rh_avg_pct'', avg rhStats),
                     (''rh_variation_pct'', stat_max rhStats - stat_min rhStats),
                     (''dp_min_F'', stat_min dpStats),
                     (''dp_max_F'', stat_max dpStats),
                     (''dp_avg_F'', avg dpStats),
                     (''return_dp_F'', returnDewPoint_F data)],
                  checks =
                    [(''temperature_mixing'',
                      \<lparr>chk_pass = tempVariationPass,
                       chk_value = VNum (stat_max tempStats - stat_min tempStats),
                       chk_target = [Uni 8804, Lit '' 5'', Uni 176, Lit ''F variation''],
                       chk_message =
                         (if tempVariationPass then [Lit ''Good temperature mixing achieved'']
                          else [Lit ''Poor temperature mixing - check airflow distribution''])\<rparr>),
                     (''humidity_mixing'',
                      \<lparr>chk_pass = rhVariationPass,
                       chk_value = VNum (stat_max rhStats - stat_min rhStats),
                       chk_target = [Uni 8804, Lit '' 10% RH variation''],
                       chk_message =
                         (if rhVariationPass then [Lit ''Good humidity mixing achieved'']
                          else [Lit ''Poor humidity mixing - check airflow distribution''])\<rparr>)],
                  pass = (tempVariationPass \<and> rhVariationPass),
                  summary =
                    [Lit ''Zone mixing - '', Uni 916, Lit ''T: '',
                     Fixed (stat_max tempStats - stat_min tempStats) 1, Uni 176, Lit ''F, '',
                     Uni 916, Lit ''RH: '',
                     Fixed (stat_max rhStats - stat_min rhStats) 1, Lit ''%'']\<rparr>)"

text \<open>\<open>weatherData?.outdoorTemp\<close>: \<open>None\<close> is the omitted third argument.\<close>

definition weather_outdoorTemp :: "weatherData option \<Rightarrow> number" where
  "weather_outdoorTemp weather = (case weather of None \<Rightarrow> Undefined | Some w \<Rightarrow> outdoorTemp w)"

text \<open>The \<open>switch\<close> on the discriminant; its \<open>default\<close> branch throws
  \<open>Error(`Unknown test type: ${testType}`)\<close>.\<close>

definition computeTestResult :: "string \<Rightarrow> reading \<Rightarrow> weatherData option \<Rightarrow> error + ComputedResult" where
  "computeTestResult testType rd weather =
     (if testType = ''BUILDING_PRESSURE'' then Inr (computeBuildingPressure rd)
      else if testType = ''PRESSURE_DECAY'' then Inr (computePressureDecay rd)
      else if testType = ''RETURN_CURB_LEAKAGE'' then Inr (computeReturnCurbLeakage rd)
      else if testType = ''SLAB_WALL_MOISTURE'' then computeSlabWallMoisture rd
      else if testType = ''AIRFLOW_STATIC'' then Inr (computeAirflowStatic rd)
      else if testType = ''REFRIGERANT_CIRCUIT''
        then Inr (computeRefrigerantCircuit rd (weather_outdoorTemp weather))
      else if testType = ''COIL_PERFORMANCE'' then Inr (computeCoilPerformance rd)
      else if testType = ''FAN_EVAP_RECHECK'' then Inr (computeFanEvapRecheck rd)
      else if testType = ''ECONOMIZER_SEAL'' then Inr (computeEconomizerSeal rd)
      else if testType = ''DISTRIBUTION_MIXING'' then computeDistributionMixing rd
      else Inl (UnknownTestType testType))"

text \<open>The recognized discriminants: the values of the enum \<open>TestType\<close>.\<close>

definition TestType :: "string list" where
  "TestType =
     [''BUILDING_PRESSURE'', ''PRESSURE_DECAY'', ''RETURN_CURB_LEAKAGE'', ''SLAB_WALL_MOISTURE'',
      ''AIRFLOW_STATIC'', ''REFRIGERANT_CIRCUIT'', ''COIL_PERFORMANCE'', ''FAN_EVAP_RECHECK'',
      ''ECONOMIZER_SEAL'', ''DISTRIBUTION_MIXING'']"

text \<open>The object \<open>{}\<close>: every field is missing.\<close>

definition empty_reading :: reading where
  "empty_reading =
     \<lparr>deltaP_inwc = Undefined, startDeltaP = Undefined, endDeltaP = Undefined,
      decaySeconds = Undefined, returnStatic_inwc = Undefined, supplyStatic_inwc = Undefined,
      smokeLeaksFound = None, leakLocations = None, plasticTest = None,
      supplyCFM = Undefined, tons = Undefined, returnCFM = Undefined,
      extStatic_inwc = Undefined, suctionLineTemp_F = Undefined, suctionPSI = Undefined,
      liquidLineTemp_F = Undefined, liquidPSI = Undefined, outdoorDB_F = Undefined,
      returnDB_F = Undefined, returnRH_pct = Undefined, supplyDB_F = Undefined,
      supplyRH_pct = Undefined, condensateVolume_oz_per_30min = Undefined,
      airflowCFM = Undefined, staticPressure_inwc = Undefined, commandedPct = Undefined,
      leakageObserved = None, test_method = None, gridSamples = None,
      returnDewPoint_F = Undefined\<rparr>"


section \<open>Rounding to IEEE-754 binary64\<close>

text \<open>
  JavaScript rounds the result of every arithmetic operation to the nearest binary64
  value, ties to the value with an even significand.  \<open>round64\<close> rounds a real: the
  significand has 53 bits, the exponent of the last place is at least \<open>-1074\<close>
  (subnormal numbers), a magnitude that rounds to \<open>2 ^ 1024\<close> or more overflows to an
  infinity, and a negative number that rounds to zero gives \<open>-0\<close>.  \<open>binary64\<close> rounds a
  number; the zeros and the special values are unchanged.
\<close>

definition round_half_even :: "real \<Rightarrow> int" where
  "round_half_even y =
     (let f = \<lfloor>y\<rfloor>;
          r = y - of_int f
      in if r < 1 / 2 then f else if 1 / 2 < r then f + 1 else if even f then f else f + 1)"

definition round64 :: "real \<Rightarrow> number" where
  "round64 x =
     (if x = 0 then Fin 0
      else let e = max (\<lfloor>log 2 \<bar>x\<bar>\<rfloor> - 52) (- 1074);
               y = of_int (round_half_even (x / 2 powr (of_int e))) * 2 powr (of_int e)
           in if 2 ^ 1024 \<le> \<bar>y\<bar> then (if 0 < x then PosInfinity else NegInfinity)
              else if y = 0 then (if x < 0 then NegZero else Fin 0)
              else Fin y)"

fun binary64 :: "number \<Rightarrow> number" where
  "binary64 (Fin x) = round64 x"
| "binary64 v = v"

text \<open>
  \<open>calculateDewPoint\<close> once more, with a rounding \<open>rd\<close> applied to every constant and
  to the result of every operation, in the order the source evaluates them.  With no
  rounding it is \<open>calculateDewPoint\<close>; with \<open>binary64\<close> it is the arithmetic the program
  runs, \<open>Math.log\<close> being taken as correctly rounded (the language fixes
  \<open>Math.log(1) = 0\<close> and leaves the precision elsewhere to the implementation).
\<close>

definition calculateDewPoint_rounded :: "(number \<Rightarrow> number) \<Rightarrow> number \<Rightarrow> number \<Rightarrow> number" where
  "calculateDewPoint_rounded rd tempF rh =
     (let tempC = rd (rd (rd (tempF - Fin 32) * Fin 5) / Fin 9);
          a = rd (Fin 17.625);
          b = rd (Fin 243.04);
          gamma = rd (rd (Math_log (rd (rh / Fin 100))) + rd (rd (a * tempC) / rd (b + tempC)));
          dewPointC = rd (rd (b * gamma) / rd (a - gamma))
      in rd (rd (rd (dewPointC * Fin 9) / Fin 5) + Fin 32))"

section \<open>The arithmetic of the program\<close>

text \<open>
  The functions whose results depend on rounding, once more, with a rounding \<open>rd\<close>
  applied to every decimal constant that is not an integer and to the result of every
  operation, in the order the source evaluates them.  With \<open>binary64\<close> for \<open>rd\<close> they
  compute what the program computes; with no rounding they are the functions above.
  \<open>Math.pow\<close> and \<open>Math.sqrt\<close> are taken as correctly rounded.

  \<open>calculateStats\<close> spreads its array into the arguments of \<open>Math.min\<close> and
  \<open>Math.max\<close>.  The parameter \<open>limit\<close> is the largest number of arguments that the
  engine accepts in a call; on a longer array the call throws a RangeError, which the
  routine does not catch.  The language fixes no such limit, so the properties are
  stated for every value of it.
\<close>

definition getSaturationTemp_rounded :: "(number \<Rightarrow> number) \<Rightarrow> number \<Rightarrow> string \<Rightarrow> number" where
  "getSaturationTemp_rounded rd pressure refrigerant =
     (if refrigerant = ''R-410A'' then
        (if pressure \<le> Fin 50 then rd (Fin (- 20) + rd (pressure * rd (Fin 1.6)))
         else if pressure \<le> Fin 100 then rd (Fin 60 + rd (rd (pressure - Fin 50) * rd (Fin 1.2)))
         else if pressure \<le> Fin 200 then rd (Fin 120 + rd (rd (pressure - Fin 100) * rd (Fin 0.8)))
         else rd (Fin 200 + rd (rd (pressure - Fin 200) * rd (Fin 0.4))))
      else rd (Fin 32 + rd (pressure * rd (Fin 0.5))))"

definition calculateSuperheat_rounded ::
  "(number \<Rightarrow> number) \<Rightarrow> number \<Rightarrow> number \<Rightarrow> string option \<Rightarrow> number" where
  "calculateSuperheat_rounded rd suctionLineTemp suctionPressure refrigerant =
     (let satTemp = getSaturationTemp_rounded rd suctionPressure (refrigerant_arg refrigerant)
      in rd (suctionLineTemp - satTemp))"

definition calculateSubcooling_rounded ::
  "(number \<Rightarrow> number) \<Rightarrow> number \<Rightarrow> number \<Rightarrow> string option \<Rightarrow> number" where
  "calculateSubcooling_rounded rd liquidLineTemp liquidPressure refrigerant =
     (let satTemp = getSaturationTemp_rounded rd liquidPressure (refrigerant_arg refrigerant)
      in rd (satTemp - liquidLineTemp))"

definition calculatePressureDecayRate_rounded ::
  "(number \<Rightarrow> number) \<Rightarrow> number \<Rightarrow> number \<Rightarrow> number \<Rightarrow> number" where
  "calculatePressureDecayRate_rounded rd startPressure endPressure timeSeconds =
     (if strict_eq timeSeconds (Fin 0) then Fin 0
      else let decayAmount = rd (startPressure - endPressure)
           in rd (rd (decayAmount / timeSeconds) * Fin 60))"

definition calculateStats_rounded ::
  "(number \<Rightarrow> number) \<Rightarrow> nat \<Rightarrow> number list \<Rightarrow> error + stats" where
  "calculateStats_rounded rd limit values =
     (if length values = 0 then
        Inr \<lparr>stat_min = Fin 0, stat_max = Fin 0, avg = Fin 0, stdDev = Fin 0\<rparr>
      else if limit < length values then Inl RangeError
      else
        let mn = Math_min values;
            mx = Math_max values;
            av = rd (foldl (\<lambda>sum val. rd (sum + val)) (Fin 0) values / Fin (real (length values)));
            variance = rd (foldl (\<lambda>sum val. rd (sum + rd (Math_pow (rd (val - av)) 2))) (Fin 0) values
                         / Fin (real (length values)));
            sd = rd (Math_sqrt variance)
        in Inr \<lparr>stat_min = mn, stat_max = mx, avg = av, stdDev = sd\<rparr>)"

definition computePressureDecay_rounded :: "(number \<Rightarrow> number) \<Rightarrow> reading \<Rightarrow> ComputedResult" where
  "computePressureDecay_rounded rd data =
     (let decayRate = calculatePressureDecayRate_rounded rd
                        (startDeltaP data) (endDeltaP data) (decaySeconds data);
          totalDecay = rd (startDeltaP data - endDeltaP data);
          acceptableDecayRate = rd (Fin 0.01);
          ok = (decayRate \<le> acceptableDecayRate)
      in \<lparr>calculations =
            [(''decay_rate_per_min'', decayRate),
             (''total_decay_inwc'', totalDecay),
             (''decay_percentage'', rd (rd (totalDecay / startDeltaP data) * Fin 100))],
          checks =
            [(''decay_rate'',
              \<lparr>chk_pass = ok,
               chk_value = VNum decayRate,
               chk_target = [Uni 8804, Lit '' '', Show acceptableDecayRate, Lit '' in. w.c./min''],
               chk_message =
                 (if ok then [Lit ''Pressure decay within acceptable limits'']
                  else [Lit ''Excessive pressure decay - check for envelope leaks''])\<rparr>)],
          pass = ok,
          summary =
            (if ok
             then [Lit ''Pressure decay rate of '', Fixed decayRate 4, Lit '' in. w.c./min is acceptable'']
             else [Lit ''Pressure decay rate of '', Fixed decayRate 4, Lit '' in. w.c./min exceeds limit''])\<rparr>)"

definition computeDistributionMixing_rounded ::
  "(number \<Rightarrow> number) \<Rightarrow> nat \<Rightarrow> reading \<Rightarrow> error + ComputedResult" where
  "computeDistributionMixing_rounded rd limit data =
     (case gridSamples data of
        None \<Rightarrow> Inl TypeError
      | Some samples \<Rightarrow>
          let temperatures = map (\<lambda>s. db_F s) samples;
              humidities = map (\<lambda>s. rh_pct s) samples;
              dewPoints = map (\<lambda>s. calculateDewPoint_rounded rd (db_F s) (rh_pct s)) samples
          in
          case calculateStats_rounded rd limit temperatures of Inl err \<Rightarrow> Inl err | Inr tempStats \<Rightarrow>
          case calculateStats_rounded rd limit humidities of Inl err \<Rightarrow> Inl err | Inr rhStats \<Rightarrow>
          case calculateStats_rounded rd limit dewPoints of Inl err \<Rightarrow> Inl err | Inr dpStats \<Rightarrow>
          let tempVariation = rd (stat_max tempStats - stat_min tempStats);
              rhVariation = rd (stat_max rhStats - stat_min rhStats);
              tempVariationPass = (tempVariation \<le> Fin 5);
              rhVariationPass = (rhVariation \<le> Fin 10)
          in Inr \<lparr>calculations =
                    [(''temp_min_F'', stat_min tempStats),
                     (''temp_max_F'', stat_max tempStats),
                     (''temp_avg_F'', avg tempStats),
                     (''temp_variation_F'', tempVariation),
                     (''rh_min_pct'', stat_min rhStats),
                     (''rh_max_pct'', stat_max rhStats),
                     (''rh_avg_pct'', avg rhStats),
                     (''rh_variation_pct'', rhVariation),
                     (''dp_min_F'', stat_min dpStats),
                     (''dp_max_F'', stat_max dpStats),
                     (''dp_avg_F'', avg dpStats),
                     (''return_dp_F'', returnDewPoint_F data)],
                  checks =
                    [(''temperature_mixing'',
                      \<lparr>chk_pass = tempVariationPass,
                       chk_value = VNum tempVariation,
                       chk_target = [Uni 8804, Lit '' 5'', Uni 176, Lit ''F variation''],
                       chk_message =
                         (if tempVariationPass then [Lit ''Good temperature mixing achieved'']
                          else [Lit ''Poor temperature mixing - check airflow distribution''])\<rparr>),
                     (''humidity_mixing'',
                      \<lparr>chk_pass = rhVariationPass,
                       chk_value = VNum rhVariation,
                       chk_target = [Uni 8804, Lit '' 10% RH variation''],
                       chk_message =
                         (if rhVariationPass then [Lit ''Good humidity mixing achieved'']
                          else [Lit ''Poor humidity mixing - check airflow distribution''])\<rparr>)],
                  pass = (tempVariationPass \<and> rhVariationPass),
                  summary =
                    [Lit ''Zone mixing - '', Uni 916, Lit ''T: '', Fixed tempVariation 1, Uni 176,
                     Lit ''F, '', Uni 916, Lit ''RH: '', Fixed rhVariation 1, Lit ''%'']\<rparr>)"

text \<open>
  The dew point over the reals, as the specification words the Magnus approximation:
  convert to Celsius, \<open>\<gamma> = ln (RH / 100) + a T / (b + T)\<close> with \<open>a = 17.625\<close> and
  \<open>b = 243.04\<close>, \<open>Td = b \<gamma> / (a - \<gamma>)\<close>, convert back to Fahrenheit.
\<close>

definition dew_point_real :: "real \<Rightarrow> real \<Rightarrow> real" where
  "dew_point_real T RH =
     (let tc = (T - 32) * 5 / 9;
          g = ln (RH / 100) + (17.625 * tc) / (243.04 + tc)
      in (243.04 * g) / (17.625 - g) * 9 / 5 + 32)"

section \<open>Arithmetic on finite numbers\<close>

lemma minus_Fin: "Fin a - Fin b = Fin (a - b)"
  by (simp add: minus_number_def)

lemma times_Fin_pos: "0 < b \<Longrightarrow> Fin a * Fin b = Fin (a * b)"
  by auto

lemma times_pos_Fin: "0 < a \<Longrightarrow> Fin a * Fin b = Fin (a * b)"
  by auto

lemma times_Fin_nonzero: "a \<noteq> 0 \<Longrightarrow> b \<noteq> 0 \<Longrightarrow> Fin a * Fin b = Fin (a * b)"
  by auto

lemma divide_Fin_pos: "0 < b \<Longrightarrow> Fin a / Fin b = Fin (a / b)"
  by auto

lemma divide_Fin_nonzero: "a \<noteq> 0 \<Longrightarrow> b \<noteq> 0 \<Longrightarrow> Fin a / Fin b = Fin (a / b)"
  by auto

section \<open>The exact functions as the unrounded case\<close>

lemma getSaturationTemp_rounded_exact:
  "getSaturationTemp_rounded (\<lambda>v. v) pressure refrigerant = getSaturationTemp pressure refrigerant"
  by (simp add: getSaturationTemp_rounded_def getSaturationTemp_def)

lemma calculateSuperheat_rounded_exact:
  "calculateSuperheat_rounded (\<lambda>v. v) t p r = calculateSuperheat t p r"
  by (simp add: calculateSuperheat_rounded_def calculateSuperheat_def getSaturationTemp_rounded_exact)

lemma calculateSubcooling_rounded_exact:
  "calculateSubcooling_rounded (\<lambda>v. v) t p r = calculateSubcooling t p r"
  by (simp add: calculateSubcooling_rounded_def calculateSubcooling_def getSaturationTemp_rounded_exact)

lemma calculatePressureDecayRate_rounded_exact:
  "calculatePressureDecayRate_rounded (\<lambda>v. v) s e t = calculatePressureDecayRate s e t"
  by (simp add: calculatePressureDecayRate_rounded_def calculatePressureDecayRate_def)

lemma calculateDewPoint_rounded_exact:
  "calculateDewPoint_rounded (\<lambda>v. v) tempF rh = calculateDewPoint tempF rh"
  by (simp add: calculateDewPoint_rounded_def calculateDewPoint_def)

lemma calculateStats_rounded_exact:
  "calculateStats_rounded (\<lambda>v. v) limit values =
     (if limit < length values then Inl RangeError else Inr (calculateStats values))"
  by (simp add: calculateStats_rounded_def calculateStats_def Let_def)

lemma computePressureDecay_rounded_exact:
  "computePressureDecay_rounded (\<lambda>v. v) data = computePressureDecay data"
  by (simp add: computePressureDecay_rounded_def computePressureDecay_def
      calculatePressureDecayRate_rounded_exact)

lemma computeDistributionMixing_rounded_exact:
  "computeDistributionMixing_rounded (\<lambda>v. v) limit data =
     (case gridSamples data of
        None \<Rightarrow> Inl TypeError
      | Some samples \<Rightarrow>
          if limit < length samples then Inl RangeError else computeDistributionMixing data)"
  by (simp add: computeDistributionMixing_rounded_def computeDistributionMixing_def
      calculateStats_rounded_exact calculateDewPoint_rounded_exact Let_def split: option.split)

section \<open>Evaluating a rounding\<close>

text \<open>
  To show that \<open>round64 x\<close> is \<open>m / 2 ^ n\<close> it suffices that \<open>m\<close> has 53 bits and lies
  within a half of \<open>x 2 ^ n\<close> (strictly, or at a tie with \<open>m\<close> even); for a large \<open>x\<close>
  the scaling is by \<open>2 ^ - n\<close> and the result may overflow.
\<close>

lemma round_half_even_eq:
  assumes "\<bar>y - of_int m\<bar> < 1 / 2"
  shows "round_half_even y = m"
proof (cases "of_int m \<le> y")
  case True
  with assms have "\<lfloor>y\<rfloor> = m" by (intro floor_unique) auto
  with assms True show ?thesis by (simp add: round_half_even_def Let_def)
next
  case False
  with assms have "\<lfloor>y\<rfloor> = m - 1" by (intro floor_unique) auto
  with assms False show ?thesis by (simp add: round_half_even_def Let_def)
qed

lemma round_half_even_tie:
  assumes "\<bar>y - of_int m\<bar> = 1 / 2" and "even m"
  shows "round_half_even y = m"
proof (cases "of_int m \<le> y")
  case True
  with assms have "\<lfloor>y\<rfloor> = m" by (intro floor_unique) auto
  with assms True show ?thesis by (simp add: round_half_even_def Let_def)
next
  case False
  with assms have "\<lfloor>y\<rfloor> = m - 1" by (intro floor_unique) auto
  with assms False show ?thesis by (simp add: round_half_even_def Let_def)
qed

lemma round64_eval:
  fixes n :: nat
  assumes lo: "2 ^ 52 \<le> \<bar>x\<bar> * 2 ^ n" and hi: "\<bar>x\<bar> * 2 ^ n < 2 ^ 53"
    and n: "n \<le> 1074" and m: "\<bar>x * 2 ^ n - of_int m\<bar> \<le> 1 / 2"
    and r: "round_half_even (x * 2 ^ n) = m"
  shows "round64 x = Fin (of_int m / 2 ^ n)"
proof -
  have x0: "x \<noteq> 0" using lo by auto
  have p: "(2::real) powr (- real n) = 1 / 2 ^ n"
    by (simp add: powr_minus powr_realpow divide_inverse)
  have pn: "(0::real) < 2 ^ n" by simp
  have "(2::real) powr (real 52 - real n) * 2 powr (real n) = 2 powr (real 52)"
    by (simp only: powr_add [symmetric]) simp
  then have a1: "(2::real) powr (of_int (52 - int n)) * 2 ^ n = 2 ^ 52"
    by (simp add: powr_realpow)
  have "(2::real) powr (real 53 - real n) * 2 powr (real n) = 2 powr (real 53)"
    by (simp only: powr_add [symmetric]) simp
  then have a2: "(2::real) powr (of_int (52 - int n + 1)) * 2 ^ n = 2 ^ 53"
    by (simp add: powr_realpow)
  from lo a1 have "2 powr (of_int (52 - int n)) * 2 ^ n \<le> \<bar>x\<bar> * 2 ^ n" by simp
  then have b1: "2 powr (of_int (52 - int n)) \<le> \<bar>x\<bar>"
    using pn by (simp only: mult_le_cancel_right_pos)
  from hi a2 have "\<bar>x\<bar> * 2 ^ n < 2 powr (of_int (52 - int n + 1)) * 2 ^ n" by simp
  then have b2: "\<bar>x\<bar> < 2 powr (of_int (52 - int n + 1))"
    using pn by (simp only: mult_less_cancel_right_pos)
  from b1 b2 have "2 powr (of_int (52 - int n)) \<le> \<bar>x\<bar> \<and> \<bar>x\<bar> < 2 powr (of_int (52 - int n + 1))"
    by simp
  then have fl: "\<lfloor>log 2 \<bar>x\<bar>\<rfloor> = 52 - int n"
    using x0 by (subst floor_log_eq_powr_iff) auto
  have e: "max (\<lfloor>log 2 \<bar>x\<bar>\<rfloor> - 52) (- 1074) = - int n"
    using fl n by simp
  have "\<bar>real_of_int m\<bar> \<le> \<bar>x * 2 ^ n\<bar> + 1 / 2" using m by linarith
  also have "\<dots> < 2 ^ 53 + 1 / 2" using hi by (simp add: abs_mult)
  finally have m54: "\<bar>real_of_int m\<bar> < 2 ^ 54" by simp
  have "\<bar>real_of_int m / 2 ^ n\<bar> \<le> \<bar>real_of_int m\<bar>"
    by (simp add: field_simps mult_le_cancel_left1)
  also note m54
  also have "(2::real) ^ 54 \<le> 2 ^ 1024"
    by (rule power_increasing) simp_all
  finally have small: "\<bar>real_of_int m / 2 ^ n\<bar> < 2 ^ 1024" .
  have "\<bar>x * 2 ^ n\<bar> \<le> \<bar>real_of_int m\<bar> + 1 / 2" using m by linarith
  moreover have "(1::real) \<le> 2 ^ 52" by simp
  ultimately have "0 < \<bar>real_of_int m\<bar>" using lo by (simp add: abs_mult)
  then have mnz: "m \<noteq> 0" by simp
  show ?thesis
    using x0 small mnz by (simp add: round64_def Let_def e r p)
qed

lemma round64_is:
  fixes n :: nat
  assumes "2 ^ 52 \<le> \<bar>x\<bar> * 2 ^ n" and "\<bar>x\<bar> * 2 ^ n < 2 ^ 53"
    and "n \<le> 1074" and "\<bar>x * 2 ^ n - of_int m\<bar> < 1 / 2" and "y = of_int m / 2 ^ n"
  shows "round64 x = Fin y"
  using round64_eval [OF assms(1-3) _ round_half_even_eq [OF assms(4)]] assms(4,5) by simp

lemma round64_tie:
  fixes n :: nat
  assumes "2 ^ 52 \<le> \<bar>x\<bar> * 2 ^ n" and "\<bar>x\<bar> * 2 ^ n < 2 ^ 53"
    and "n \<le> 1074" and "\<bar>x * 2 ^ n - of_int m\<bar> = 1 / 2" and "even m"
    and "y = of_int m / 2 ^ n"
  shows "round64 x = Fin y"
  using round64_eval [OF assms(1-3) _ round_half_even_tie [OF assms(4,5)]] assms(4,6) by simp

lemma binary64_const: "round64 a = Fin c \<Longrightarrow> binary64 (Fin a) = Fin c"
  by simp

lemma binary64_plus: "round64 (a + b) = Fin c \<Longrightarrow> binary64 (Fin a + Fin b) = Fin c"
  by simp

lemma binary64_minus: "round64 (a - b) = Fin c \<Longrightarrow> binary64 (Fin a - Fin b) = Fin c"
  by (simp add: minus_Fin)

lemma binary64_times:
  "round64 (a * b) = Fin c \<Longrightarrow> a \<noteq> 0 \<Longrightarrow> b \<noteq> 0 \<Longrightarrow> binary64 (Fin a * Fin b) = Fin c"
  by (simp add: times_Fin_nonzero)

lemma binary64_divide:
  "round64 (a / b) = Fin c \<Longrightarrow> a \<noteq> 0 \<Longrightarrow> b \<noteq> 0 \<Longrightarrow> binary64 (Fin a / Fin b) = Fin c"
  by (simp add: divide_Fin_nonzero)

lemma round64_eval_big:
  fixes n :: nat
  assumes lo: "2 ^ 52 * 2 ^ n \<le> \<bar>x\<bar>" and hi: "\<bar>x\<bar> < 2 ^ 53 * 2 ^ n"
    and m: "\<bar>x / 2 ^ n - of_int m\<bar> \<le> 1 / 2"
    and r: "round_half_even (x / 2 ^ n) = m"
  shows "round64 x =
           (if 2 ^ 1024 \<le> \<bar>real_of_int m * 2 ^ n\<bar>
            then (if 0 < x then PosInfinity else NegInfinity)
            else Fin (real_of_int m * 2 ^ n))"
proof -
  have pn: "(0::real) < 2 ^ n" by simp
  have x0: "x \<noteq> 0" using lo pn by (smt (verit) mult_pos_pos zero_less_power)
  have p: "(2::real) powr (real n) = 2 ^ n"
    by (simp add: powr_realpow)
  have a1: "(2::real) powr (of_int (52 + int n)) = 2 ^ 52 * 2 ^ n"
    by (simp add: powr_add powr_realpow)
  have a2: "(2::real) powr (of_int (52 + int n + 1)) = 2 ^ 53 * 2 ^ n"
    by (simp add: powr_add powr_realpow)
  from lo hi a1 a2
  have "2 powr (of_int (52 + int n)) \<le> \<bar>x\<bar> \<and> \<bar>x\<bar> < 2 powr (of_int (52 + int n + 1))"
    by simp
  then have fl: "\<lfloor>log 2 \<bar>x\<bar>\<rfloor> = 52 + int n"
    using x0 by (subst floor_log_eq_powr_iff) auto
  have e: "max (\<lfloor>log 2 \<bar>x\<bar>\<rfloor> - 52) (- 1074) = int n"
    using fl by simp
  have "2 ^ 52 \<le> \<bar>x\<bar> / 2 ^ n" using lo pn by (simp add: pos_le_divide_eq)
  then have "2 ^ 52 \<le> \<bar>x / 2 ^ n\<bar>" by simp
  moreover have "\<bar>x / 2 ^ n\<bar> \<le> \<bar>real_of_int m\<bar> + 1 / 2" using m by linarith
  moreover have "(1::real) \<le> 2 ^ 52" by simp
  ultimately have "0 < \<bar>real_of_int m\<bar>" by linarith
  then have mnz: "m \<noteq> 0" by simp
  show ?thesis
    using x0 mnz by (simp add: round64_def Let_def e r p)
qed

section \<open>The verdict of each threshold check\<close>

lemma chk_pass_checkBuildingPressure:
  "chk_pass (checkBuildingPressure x) = (Fin 0.02 \<le> x \<and> x \<le> Fin 0.05)"
  by (simp add: checkBuildingPressure_def Let_def)



lemma chk_pass_checkSuperheat:
  "chk_pass (checkSuperheat x t) =
     (fst (superheatRange (default_arg t (Fin 95))) \<le> x
      \<and> x \<le> snd (superheatRange (default_arg t (Fin 95))))"
  by (simp add: checkSuperheat_def Let_def split: prod.split)

lemma chk_pass_checkSubcooling:
  "chk_pass (checkSubcooling x t) =
     (fst (subcoolingRange (default_arg t (Fin 95))) \<le> x
      \<and> x \<le> snd (subcoolingRange (default_arg t (Fin 95))))"
  by (simp add: checkSubcooling_def Let_def split: prod.split)

section \<open>Degenerate inputs of the numeric primitives\<close>

text \<open>
  Claim C6.  The guarded primitives return their defined values on degenerate inputs and
  raise nothing: \<open>calculateCfmPerTon(cfm, 0)\<close> is 0 whatever \<open>cfm\<close> is (even \<open>NaN\<close>, an
  infinity or \<open>undefined\<close>), \<open>calculatePressureDecayRate(start, end, 0)\<close> is 0 whatever
  the two pressures are, and \<open>calculateStats([])\<close> is the all-zero record.  The same
  holds when the zero is \<open>-0\<close>, and in the arithmetic of the program, whatever the
  rounding and the argument limit of the engine are.
\<close>

theorem degenerate_primitives:
  "calculateCfmPerTon cfm (Fin 0) = Fin 0
   \<and> calculatePressureDecayRate startPressure endPressure (Fin 0) = Fin 0
   \<and> calculateStats [] = \<lparr>stat_min = Fin 0, stat_max = Fin 0, avg = Fin 0, stdDev = Fin 0\<rparr>
   \<and> calculateCfmPerTon cfm NegZero = Fin 0
   \<and> calculatePressureDecayRate startPressure endPressure NegZero = Fin 0
   \<and> calculatePressureDecayRate_rounded rd startPressure endPressure (Fin 0) = Fin 0
   \<and> calculatePressureDecayRate_rounded rd startPressure endPressure NegZero = Fin 0
   \<and> calculateStats_rounded rd limit []
         = Inr \<lparr>stat_min = Fin 0, stat_max = Fin 0, avg = Fin 0, stdDev = Fin 0\<rparr>"
  by (simp add: calculateCfmPerTon_def calculatePressureDecayRate_def calculateStats_def
      calculatePressureDecayRate_rounded_def calculateStats_rounded_def)

section \<open>Saturation temperature, superheat and subcooling\<close>

text \<open>
  Claim C4, as the specification states it, gives the superheat as the value of the
  formula \<open>T - (120 + 0.8 (P - 100))\<close> and its like.  The program evaluates the formula
  in binary64, rounding the constant \<open>0.8\<close> and each operation.  For the suction
  temperature \<open>135.8\<close> and the pressure \<open>101\<close> it returns
  \<open>1055531162664961 / 2 ^ 46\<close>, that is \<open>15.000000000000014\<close>: not the value of the
  formula at the number that the literal \<open>135.8\<close> denotes in binary64, and not its value
  \<open>15\<close> at \<open>135.8\<close> either.  The difference decides a verdict: at the default outdoor
  temperature the superheat check passes \<open>15\<close> and fails the value returned.
\<close>

theorem superheat_binary64_rounding:
  "calculateSuperheat_rounded binary64 (binary64 (Fin 135.8)) (Fin 101) None
     = Fin (1055531162664961 / 2 ^ 46)
   \<and> binary64 (Fin 135.8) = Fin (4778037729663386 / 2 ^ 45)
   \<and> (1055531162664961 / 2 ^ 46 :: real) \<noteq> 4778037729663386 / 2 ^ 45 - (120 + 0.8 * (101 - 100))
   \<and> (1055531162664961 / 2 ^ 46 :: real) \<noteq> 135.8 - (120 + 0.8 * (101 - 100))
   \<and> chk_pass (checkSuperheat (Fin (135.8 - (120 + 0.8 * (101 - 100)))) (Fin 95))
   \<and> \<not> chk_pass (checkSuperheat (Fin (1055531162664961 / 2 ^ 46)) (Fin 95))"
proof -
  have c1: "binary64 (Fin 135.8) = Fin (4778037729663386 / 2 ^ 45)"
    by (rule binary64_const, rule round64_is [where n = 45 and m = 4778037729663386]) simp_all
  have c2: "binary64 (Fin 0.8) = Fin (7205759403792794 / 2 ^ 53)"
    by (rule binary64_const, rule round64_is [where n = 53 and m = 7205759403792794]) simp_all
  have s3: "binary64 (Fin 101 - Fin 100) = Fin 1"
    by (rule binary64_minus, rule round64_is [where n = 52 and m = 4503599627370496]) simp_all
  have s4: "binary64 (Fin 1 * Fin (7205759403792794 / 2 ^ 53)) = Fin (7205759403792794 / 2 ^ 53)"
    by (rule binary64_times, rule round64_is [where n = 53 and m = 7205759403792794]) simp_all
  have s5: "binary64 (Fin 120 + Fin (7205759403792794 / 2 ^ 53)) = Fin (8500544296661811 / 2 ^ 46)"
    by (rule binary64_plus, rule round64_is [where n = 46 and m = 8500544296661811]) simp_all
  have s6: "binary64 (Fin (4778037729663386 / 2 ^ 45) - Fin (8500544296661811 / 2 ^ 46)) = Fin (8444249301319688 / 2 ^ 49)"
    by (rule binary64_minus, rule round64_is [where n = 49 and m = 8444249301319688]) simp_all
  have branch: "\<not> Fin 101 \<le> Fin 50" "\<not> Fin 101 \<le> Fin 100" "Fin 101 \<le> Fin 200"
    by simp_all
  have "calculateSuperheat_rounded binary64 (binary64 (Fin 135.8)) (Fin 101) None
          = Fin (8444249301319688 / 2 ^ 49)"
    unfolding calculateSuperheat_rounded_def getSaturationTemp_rounded_def refrigerant_arg_def Let_def
    by (simp only: option.case branch if_True if_False refl c1 c2 s3 s4 s5 s6)
  then have run: "calculateSuperheat_rounded binary64 (binary64 (Fin 135.8)) (Fin 101) None
                    = Fin (1055531162664961 / 2 ^ 46)"
    by simp
  show ?thesis
    apply (intro conjI)
         apply (rule run)
        apply (rule c1)
       apply simp
      apply simp
     apply (simp add: chk_pass_checkSuperheat superheatRange_def default_arg_def)
    apply (simp add: chk_pass_checkSuperheat superheatRange_def default_arg_def)
    done
qed

text \<open>
  Claim C4, amended.  In exact arithmetic, for every finite temperature \<open>T\<close> and pressure
  \<open>P\<close>, with the refrigerant argument omitted (so the default R-410A):
  \<open>calculateSuperheat(T, P)\<close> is \<open>T\<close> minus the piecewise-linear saturation temperature
  (\<open>-20 + 1.6 P\<close> up to 50, \<open>60 + 1.2 (P - 50)\<close> up to 100, \<open>120 + 0.8 (P - 100)\<close> up to
  200, \<open>200 + 0.4 (P - 200)\<close> above), \<open>calculateSubcooling(T, P)\<close> is that saturation
  temperature minus \<open>T\<close>, and for a refrigerant other than \<open>'R-410A'\<close> the saturation
  temperature is \<open>32 + 0.5 P\<close>.  In the arithmetic of the program the segments and their
  breakpoints are the same, and the value is that of the same formula with the constants
  \<open>1.6\<close>, \<open>1.2\<close>, \<open>0.8\<close>, \<open>0.4\<close>, \<open>0.5\<close> and the result of each operation rounded to
  binary64.
\<close>

theorem saturation_superheat_subcooling:
  "calculateSuperheat (Fin T) (Fin P) None =
     Fin (T - (if P \<le> 50 then - 20 + 1.6 * P
               else if P \<le> 100 then 60 + 1.2 * (P - 50)
               else if P \<le> 200 then 120 + 0.8 * (P - 100)
               else 200 + 0.4 * (P - 200)))
   \<and> calculateSubcooling (Fin T) (Fin P) None =
     Fin ((if P \<le> 50 then - 20 + 1.6 * P
           else if P \<le> 100 then 60 + 1.2 * (P - 50)
           else if P \<le> 200 then 120 + 0.8 * (P - 100)
           else 200 + 0.4 * (P - 200)) - T)
   \<and> getSaturationTemp (Fin P) r =
     Fin (if r = ''R-410A''
          then (if P \<le> 50 then - 20 + 1.6 * P
                else if P \<le> 100 then 60 + 1.2 * (P - 50)
                else if P \<le> 200 then 120 + 0.8 * (P - 100)
                else 200 + 0.4 * (P - 200))
          else 32 + 0.5 * P)
   \<and> getSaturationTemp_rounded binary64 (Fin P) r =
     (if r = ''R-410A''
      then (if P \<le> 50 then binary64 (Fin (- 20) + binary64 (Fin P * binary64 (Fin 1.6)))
            else if P \<le> 100
              then binary64 (Fin 60 + binary64 (binary64 (Fin P - Fin 50) * binary64 (Fin 1.2)))
            else if P \<le> 200
              then binary64 (Fin 120 + binary64 (binary64 (Fin P - Fin 100) * binary64 (Fin 0.8)))
            else binary64 (Fin 200 + binary64 (binary64 (Fin P - Fin 200) * binary64 (Fin 0.4))))
      else binary64 (Fin 32 + binary64 (Fin P * binary64 (Fin 0.5))))
   \<and> calculateSuperheat_rounded binary64 (Fin T) (Fin P) None =
       binary64 (Fin T - getSaturationTemp_rounded binary64 (Fin P) ''R-410A'')
   \<and> calculateSubcooling_rounded binary64 (Fin T) (Fin P) None =
       binary64 (getSaturationTemp_rounded binary64 (Fin P) ''R-410A'' - Fin T)"
  by (simp add: calculateSuperheat_def calculateSubcooling_def getSaturationTemp_def
      refrigerant_arg_def minus_Fin times_Fin_pos
      calculateSuperheat_rounded_def calculateSubcooling_rounded_def getSaturationTemp_rounded_def)

theorem saturation_superheat_subcooling_witness:
  "calculateSuperheat (Fin 45) (Fin 118) None = Fin (- 89.4)
   \<and> calculateSubcooling (Fin 85) (Fin 285) None = Fin 149
   \<and> getSaturationTemp (Fin 40) ''R-22'' = Fin 52
   \<and> calculateSuperheat_rounded binary64 (Fin 45) (Fin 118) None
       = binary64 (Fin 45 - binary64 (Fin 120 + binary64 (binary64 (Fin 118 - Fin 100)
                                                             * binary64 (Fin 0.8))))"
  using saturation_superheat_subcooling [of 45 118 "''R-410A''"]
    saturation_superheat_subcooling [of 85 285 "''R-410A''"]
    saturation_superheat_subcooling [of 40 40 "''R-22''"]
  by simp

section \<open>Acceptance ranges of the superheat and subcooling checks\<close>

text \<open>
  Claim C3.  For every finite superheat \<open>s\<close> and outdoor temperature \<open>t\<close>,
  \<open>checkSuperheat(s, t)\<close> passes iff \<open>s\<close> is in [6, 12] when \<open>t > 100\<close>, in [10, 18] when
  \<open>t < 80\<close>, and in [8, 15] otherwise, so the base range holds at exactly 80 and 100;
  \<open>checkSubcooling(c, t)\<close> passes iff \<open>c\<close> is in [10, 18] when \<open>t > 100\<close>, in [6, 12]
  when \<open>t < 80\<close>, and in [8, 15] otherwise.
\<close>

theorem superheat_subcooling_ranges:
  "chk_pass (checkSuperheat (Fin s) (Fin t)) =
     (if t > 100 then 6 \<le> s \<and> s \<le> 12
      else if t < 80 then 10 \<le> s \<and> s \<le> 18
      else 8 \<le> s \<and> s \<le> 15)
   \<and> chk_pass (checkSubcooling (Fin c) (Fin t)) =
     (if t > 100 then 10 \<le> c \<and> c \<le> 18
      else if t < 80 then 6 \<le> c \<and> c \<le> 12
      else 8 \<le> c \<and> c \<le> 15)"
  by (simp add: chk_pass_checkSuperheat chk_pass_checkSubcooling superheatRange_def
      subcoolingRange_def default_arg_def)

section \<open>The overall verdict\<close>

lemma pass_computeBuildingPressure:
  "pass (computeBuildingPressure d) = list_all (\<lambda>c. chk_pass (snd c)) (checks (computeBuildingPressure d))"
  by (simp add: computeBuildingPressure_def Let_def)

lemma pass_computePressureDecay:
  "pass (computePressureDecay d) = list_all (\<lambda>c. chk_pass (snd c)) (checks (computePressureDecay d))"
  by (simp add: computePressureDecay_def Let_def)

lemma pass_computeReturnCurbLeakage:
  "pass (computeReturnCurbLeakage d) = list_all (\<lambda>c. chk_pass (snd c)) (checks (computeReturnCurbLeakage d))"
  by (simp add: computeReturnCurbLeakage_def Let_def)

lemma pass_computeSlabWallMoisture:
  "computeSlabWallMoisture d = Inr res \<Longrightarrow> pass res = list_all (\<lambda>c. chk_pass (snd c)) (checks res)"
  by (auto simp add: computeSlabWallMoisture_def Let_def split: option.splits)

lemma pass_computeAirflowStatic:
  "pass (computeAirflowStatic d) = list_all (\<lambda>c. chk_pass (snd c)) (checks (computeAirflowStatic d))"
  by (simp add: computeAirflowStatic_def Let_def)

lemma pass_computeRefrigerantCircuit:
  "pass (computeRefrigerantCircuit d t) = list_all (\<lambda>c. chk_pass (snd c)) (checks (computeRefrigerantCircuit d t))"
  by (simp add: computeRefrigerantCircuit_def Let_def)

lemma pass_computeCoilPerformance:
  "pass (computeCoilPerformance d) = list_all (\<lambda>c. chk_pass (snd c)) (checks (computeCoilPerformance d))"
  by (simp add: computeCoilPerformance_def Let_def)

lemma pass_computeFanEvapRecheck:
  "pass (computeFanEvapRecheck d) = list_all (\<lambda>c. chk_pass (snd c)) (checks (computeFanEvapRecheck d))"
  by (simp add: computeFanEvapRecheck_def Let_def)

lemma pass_computeEconomizerSeal:
  "pass (computeEconomizerSeal d) = list_all (\<lambda>c. chk_pass (snd c)) (checks (computeEconomizerSeal d))"
  by (simp add: computeEconomizerSeal_def Let_def)

lemma pass_computeDistributionMixing:
  "computeDistributionMixing d = Inr res \<Longrightarrow> pass res = list_all (\<lambda>c. chk_pass (snd c)) (checks res)"
  by (auto simp add: computeDistributionMixing_def Let_def split: option.splits)

text \<open>
  Claim C1.  Whenever \<open>computeTestResult\<close> returns a result, for any test type, any
  reading and any weather context, the \<open>pass\<close> field of the result is the conjunction of
  the \<open>pass\<close> fields of all entries of its \<open>checks\<close> map.
\<close>

theorem pass_is_conjunction_of_checks:
  assumes "computeTestResult testType rd weather = Inr res"
  shows "pass res = list_all (\<lambda>c. chk_pass (snd c)) (checks res)"
  using assms
  unfolding computeTestResult_def
  by (auto split: if_splits
      simp: pass_computeBuildingPressure pass_computePressureDecay pass_computeReturnCurbLeakage
        pass_computeSlabWallMoisture pass_computeAirflowStatic pass_computeRefrigerantCircuit
        pass_computeCoilPerformance pass_computeFanEvapRecheck pass_computeEconomizerSeal
        pass_computeDistributionMixing)

theorem pass_is_conjunction_of_checks_witness:
  "computeTestResult ''BUILDING_PRESSURE'' (empty_reading\<lparr>deltaP_inwc := Fin 0.035\<rparr>) None
     = Inr (computeBuildingPressure (empty_reading\<lparr>deltaP_inwc := Fin 0.035\<rparr>))
   \<and> pass (computeBuildingPressure (empty_reading\<lparr>deltaP_inwc := Fin 0.035\<rparr>))
   \<and> list_all (\<lambda>c. chk_pass (snd c))
        (checks (computeBuildingPressure (empty_reading\<lparr>deltaP_inwc := Fin 0.035\<rparr>)))"
proof -
  let ?rd = "empty_reading\<lparr>deltaP_inwc := Fin 0.035\<rparr>"
  have run: "computeTestResult ''BUILDING_PRESSURE'' ?rd None = Inr (computeBuildingPressure ?rd)"
    by (simp add: computeTestResult_def)
  have verdict: "pass (computeBuildingPressure ?rd)"
    by (simp add: computeBuildingPressure_def chk_pass_checkBuildingPressure Let_def)
  from pass_is_conjunction_of_checks [OF run] run verdict show ?thesis
    by simp
qed

section \<open>Dispatch on the test type\<close>

text \<open>
  Claim C5.  \<open>computeTestResult\<close> signals the error "unknown test type", carrying the
  discriminant, exactly when the discriminant is not one of the ten recognized values.
  For a recognized value it never signals that error, and it returns a result; the one
  proviso is that a slab/wall reading has its field \<open>plasticTest\<close> and a distribution
  reading its field \<open>gridSamples\<close>, on which those two routines call a method (a
  TypeError, not the unknown-type error, when the field is missing).
\<close>

theorem unknown_test_type:
  "(testType \<notin> set TestType \<longrightarrow>
      computeTestResult testType rd weather = Inl (UnknownTestType testType))
   \<and> (testType \<in> set TestType \<longrightarrow>
        computeTestResult testType rd weather \<noteq> Inl (UnknownTestType s))
   \<and> (testType \<in> set TestType
        \<and> (testType = ''SLAB_WALL_MOISTURE'' \<longrightarrow> plasticTest rd \<noteq> None)
        \<and> (testType = ''DISTRIBUTION_MIXING'' \<longrightarrow> gridSamples rd \<noteq> None) \<longrightarrow>
        (\<exists>res. computeTestResult testType rd weather = Inr res))"
  by (auto simp add: computeTestResult_def TestType_def computeSlabWallMoisture_def
      computeDistributionMixing_def Let_def split: option.splits)

theorem unknown_test_type_witness:
  "computeTestResult ''HUMIDITY_SWEEP'' empty_reading None = Inl (UnknownTestType ''HUMIDITY_SWEEP'')
   \<and> computeTestResult ''BUILDING_PRESSURE'' (empty_reading\<lparr>deltaP_inwc := Fin 0.035\<rparr>) None
       \<noteq> Inl (UnknownTestType ''BUILDING_PRESSURE'')
   \<and> (\<exists>res. computeTestResult ''BUILDING_PRESSURE''
          (empty_reading\<lparr>deltaP_inwc := Fin 0.035\<rparr>) None = Inr res)
   \<and> (\<exists>res. computeTestResult ''SLAB_WALL_MOISTURE''
          (empty_reading\<lparr>plasticTest := Some ''CONDENSATION''\<rparr>) None = Inr res)"
  using unknown_test_type [of "''HUMIDITY_SWEEP''" empty_reading None]
    unknown_test_type [of "''BUILDING_PRESSURE''" "empty_reading\<lparr>deltaP_inwc := Fin 0.035\<rparr>"
      None "''BUILDING_PRESSURE''"]
    unknown_test_type [of "''SLAB_WALL_MOISTURE''"
      "empty_reading\<lparr>plasticTest := Some ''CONDENSATION''\<rparr>" None]
  by (simp add: TestType_def)

section \<open>Percentage decay\<close>

lemma divide_by_zero:
  assumes "strict_eq z (Fin 0)"
  shows "x / z = NaN \<or> x / z = PosInfinity \<or> x / z = NegInfinity"
  using assms by (cases x; cases z) auto

lemma decay_percentage_rounded:
  fixes data :: reading
  shows "map_of (calculations (computePressureDecay_rounded rd
       (data\<lparr>startDeltaP := s, endDeltaP := e\<rparr>))) ''decay_percentage''
     = Some (rd (rd (rd (s - e) / s) * Fin 100))"
  by (simp add: computePressureDecay_rounded_def Let_def)

text \<open>
  Claim C10, as stated, gives the entry \<open>decay_percentage\<close> as the value of
  \<open>(startDeltaP - endDeltaP) / startDeltaP \<times> 100\<close> whenever \<open>startDeltaP\<close> is not zero.
  The program rounds each of the three operations to binary64.  For the pressures
  \<open>0.05\<close> and \<open>0.04\<close> it yields \<open>5629499534213121 / 2 ^ 48\<close>, that is
  \<open>20.000000000000004\<close>, which is the value of the expression neither at the two numbers
  that the literals denote in binary64 nor at \<open>0.05\<close> and \<open>0.04\<close>.  For the smallest
  positive start pressure, \<open>2 ^ - 1074\<close>, and the end pressure \<open>1\<close> the quotient
  overflows and the entry is \<open>-Infinity\<close>, although the start pressure is not zero.
\<close>

theorem decay_percentage_binary64_rounding:
  "map_of (calculations (computePressureDecay_rounded binary64
       (empty_reading\<lparr>startDeltaP := binary64 (Fin 0.05), endDeltaP := binary64 (Fin 0.04),
          decaySeconds := Fin 60\<rparr>))) ''decay_percentage''
     = Some (Fin (5629499534213121 / 2 ^ 48))
   \<and> binary64 (Fin 0.05) = Fin (7205759403792794 / 2 ^ 57)
   \<and> binary64 (Fin 0.04) = Fin (5764607523034235 / 2 ^ 57)
   \<and> (5629499534213121 / 2 ^ 48 :: real)
       \<noteq> (7205759403792794 / 2 ^ 57 - 5764607523034235 / 2 ^ 57) / (7205759403792794 / 2 ^ 57) * 100
   \<and> (5629499534213121 / 2 ^ 48 :: real) \<noteq> (0.05 - 0.04) / 0.05 * 100
   \<and> map_of (calculations (computePressureDecay_rounded binary64
       (empty_reading\<lparr>startDeltaP := Fin (1 / 2 ^ 1074), endDeltaP := Fin 1,
          decaySeconds := Fin 60\<rparr>))) ''decay_percentage''
     = Some NegInfinity"
proof -
  have c1: "binary64 (Fin 0.05) = Fin (7205759403792794 / 2 ^ 57)"
    by (rule binary64_const, rule round64_is [where n = 57 and m = 7205759403792794]) simp_all
  have c2: "binary64 (Fin 0.04) = Fin (5764607523034235 / 2 ^ 57)"
    by (rule binary64_const, rule round64_is [where n = 57 and m = 5764607523034235]) simp_all
  have s3: "binary64 (Fin (7205759403792794 / 2 ^ 57) - Fin (5764607523034235 / 2 ^ 57)) = Fin (5764607523034236 / 2 ^ 59)"
    by (rule binary64_minus, rule round64_is [where n = 59 and m = 5764607523034236]) simp_all
  have s4: "binary64 (Fin (5764607523034236 / 2 ^ 59) / Fin (7205759403792794 / 2 ^ 57)) = Fin (7205759403792795 / 2 ^ 55)"
    by (rule binary64_divide, rule round64_is [where n = 55 and m = 7205759403792795]) simp_all
  have s5: "binary64 (Fin (7205759403792795 / 2 ^ 55) * Fin 100) = Fin (5629499534213121 / 2 ^ 48)"
    by (rule binary64_times, rule round64_is [where n = 48 and m = 5629499534213121]) simp_all
  have typical: "map_of (calculations (computePressureDecay_rounded binary64
       (empty_reading\<lparr>startDeltaP := binary64 (Fin 0.05), endDeltaP := binary64 (Fin 0.04),
          decaySeconds := Fin 60\<rparr>))) ''decay_percentage''
     = Some (Fin (5629499534213121 / 2 ^ 48))"
    using decay_percentage_rounded
      [where rd = binary64 and data = "empty_reading\<lparr>decaySeconds := Fin 60\<rparr>"
         and s = "binary64 (Fin 0.05)" and e = "binary64 (Fin 0.04)"]
    by (simp only: c1 c2 s3 s4 s5) (simp add: empty_reading_def)
  have t1: "binary64 (Fin (1 / 2 ^ 1074) - Fin 1) = Fin (- 1)"
    by (rule binary64_minus, rule round64_is [where n = 53 and m = "- 9007199254740992"]) simp_all
  have "round64 (- 1 / (1 / 2 ^ 1074)) =
          (if 2 ^ 1024 \<le> \<bar>of_int (- 4503599627370496) * (2::real) ^ 1022\<bar>
           then (if (0::real) < - 1 / (1 / 2 ^ 1074) then PosInfinity else NegInfinity)
           else Fin (of_int (- 4503599627370496) * 2 ^ 1022))"
    by (rule round64_eval_big) (simp_all add: round_half_even_def)
  then have "round64 (- 1 / (1 / 2 ^ 1074)) = NegInfinity"
    by simp
  then have t2: "binary64 (Fin (- 1) / Fin (1 / 2 ^ 1074)) = NegInfinity"
    by (simp add: divide_Fin_nonzero)
  have tiny: "map_of (calculations (computePressureDecay_rounded binary64
       (empty_reading\<lparr>startDeltaP := Fin (1 / 2 ^ 1074), endDeltaP := Fin 1,
          decaySeconds := Fin 60\<rparr>))) ''decay_percentage''
     = Some NegInfinity"
    using decay_percentage_rounded
      [where rd = binary64 and data = "empty_reading\<lparr>decaySeconds := Fin 60\<rparr>"
         and s = "Fin (1 / 2 ^ 1074)" and e = "Fin 1"]
    by (simp only: t1 t2) (simp add: empty_reading_def)
  show ?thesis
    apply (intro conjI)
         apply (rule typical)
        apply (rule c1)
       apply (rule c2)
      apply simp
     apply simp
    apply (rule tiny)
    done
qed

text \<open>
  Claim C10, amended.  \<open>computePressureDecay\<close> divides by \<open>startDeltaP\<close> without a guard.
  In the arithmetic of the program the entry \<open>decay_percentage\<close> is, for every reading,
  the result of the subtraction, the division and the multiplication by 100, each
  rounded to binary64.  When \<open>startDeltaP\<close> is a zero the division is by zero and the
  entry is \<open>NaN\<close>, \<open>Infinity\<close> or \<open>-Infinity\<close>: no degenerate value is defined for it,
  whereas \<open>decay_rate_per_min\<close>, which comes from the guarded primitive, is 0 when
  \<open>decaySeconds\<close> is zero.  In exact arithmetic the entry is the value of
  \<open>(startDeltaP - endDeltaP) / startDeltaP \<times> 100\<close> for finite pressures with
  \<open>startDeltaP\<close> not zero (as \<open>-0\<close> when the pressures are equal and negative).
\<close>

theorem decay_percentage_unguarded:
  assumes "startDeltaP rd = s" and "endDeltaP rd = e"
  shows "map_of (calculations (computePressureDecay_rounded binary64 rd)) ''decay_percentage''
           = Some (binary64 (binary64 (binary64 (s - e) / s) * Fin 100))
         \<and> (strict_eq s (Fin 0) \<longrightarrow>
              binary64 (binary64 (binary64 (s - e) / s) * Fin 100) = NaN
              \<or> binary64 (binary64 (binary64 (s - e) / s) * Fin 100) = PosInfinity
              \<or> binary64 (binary64 (binary64 (s - e) / s) * Fin 100) = NegInfinity)
         \<and> (strict_eq (decaySeconds rd) (Fin 0) \<longrightarrow>
              map_of (calculations (computePressureDecay_rounded binary64 rd)) ''decay_rate_per_min''
                = Some (Fin 0))
         \<and> (\<forall>a b. s = Fin a \<and> e = Fin b \<and> a \<noteq> 0 \<longrightarrow>
              map_of (calculations (computePressureDecay rd)) ''decay_percentage''
                = Some (if a = b \<and> a < 0 then NegZero else Fin ((a - b) / a * 100)))"
proof (intro conjI impI allI)
  show "map_of (calculations (computePressureDecay_rounded binary64 rd)) ''decay_percentage''
           = Some (binary64 (binary64 (binary64 (s - e) / s) * Fin 100))"
    using assms by (simp add: computePressureDecay_rounded_def Let_def)
next
  assume "strict_eq s (Fin 0)"
  from divide_by_zero [OF this, of "binary64 (s - e)"]
  show "binary64 (binary64 (binary64 (s - e) / s) * Fin 100) = NaN
        \<or> binary64 (binary64 (binary64 (s - e) / s) * Fin 100) = PosInfinity
        \<or> binary64 (binary64 (binary64 (s - e) / s) * Fin 100) = NegInfinity"
    by auto
next
  assume "strict_eq (decaySeconds rd) (Fin 0)"
  then show "map_of (calculations (computePressureDecay_rounded binary64 rd)) ''decay_rate_per_min''
                = Some (Fin 0)"
    by (simp add: computePressureDecay_rounded_def calculatePressureDecayRate_rounded_def Let_def)
next
  fix a b
  assume "s = Fin a \<and> e = Fin b \<and> a \<noteq> 0"
  with assms
  show "map_of (calculations (computePressureDecay rd)) ''decay_percentage''
          = Some (if a = b \<and> a < 0 then NegZero else Fin ((a - b) / a * 100))"
    by (auto simp add: computePressureDecay_def Let_def minus_Fin)
qed

theorem decay_percentage_unguarded_witness:
  "map_of (calculations (computePressureDecay_rounded binary64
       (empty_reading\<lparr>startDeltaP := NegZero, endDeltaP := Fin 5, decaySeconds := Fin 60\<rparr>)))
     ''decay_percentage'' = Some PosInfinity
   \<and> map_of (calculations (computePressureDecay_rounded binary64
       (empty_reading\<lparr>startDeltaP := Fin 0, endDeltaP := Fin 5, decaySeconds := Fin 60\<rparr>)))
     ''decay_percentage'' = Some NegInfinity
   \<and> map_of (calculations (computePressureDecay_rounded binary64
       (empty_reading\<lparr>startDeltaP := Fin 0, endDeltaP := Fin 0, decaySeconds := Fin 0\<rparr>)))
     ''decay_percentage'' = Some NaN
   \<and> map_of (calculations (computePressureDecay_rounded binary64
       (empty_reading\<lparr>startDeltaP := Fin 0, endDeltaP := Fin 0, decaySeconds := Fin 0\<rparr>)))
     ''decay_rate_per_min'' = Some (Fin 0)
   \<and> map_of (calculations (computePressureDecay
       (empty_reading\<lparr>startDeltaP := Fin 5, endDeltaP := Fin 4, decaySeconds := Fin 60\<rparr>)))
     ''decay_percentage'' = Some (Fin 20)
   \<and> map_of (calculations (computePressureDecay
       (empty_reading\<lparr>startDeltaP := Fin (- 5), endDeltaP := Fin (- 5), decaySeconds := Fin 60\<rparr>)))
     ''decay_percentage'' = Some NegZero"
proof -
  have five: "round64 (- 5) = Fin (- 5)"
    by (rule round64_is [where n = 50 and m = "- 5629499534213120"]) simp_all
  have a: "binary64 (binary64 (binary64 (NegZero - Fin 5) / NegZero) * Fin 100) = PosInfinity"
    by (simp add: minus_number_def five)
  have b: "binary64 (binary64 (binary64 (Fin 0 - Fin 5) / Fin 0) * Fin 100) = NegInfinity"
    by (simp add: minus_Fin five)
  have c: "binary64 (binary64 (binary64 (Fin 0 - Fin 0) / Fin 0) * Fin 100) = NaN"
    by (simp add: minus_Fin round64_def)
  from decay_percentage_unguarded
         [of "empty_reading\<lparr>startDeltaP := NegZero, endDeltaP := Fin 5, decaySeconds := Fin 60\<rparr>"
             NegZero "Fin 5"]
       decay_percentage_unguarded
         [of "empty_reading\<lparr>startDeltaP := Fin 0, endDeltaP := Fin 5, decaySeconds := Fin 60\<rparr>"
             "Fin 0" "Fin 5"]
       decay_percentage_unguarded
         [of "empty_reading\<lparr>startDeltaP := Fin 0, endDeltaP := Fin 0, decaySeconds := Fin 0\<rparr>"
             "Fin 0" "Fin 0"]
       decay_percentage_unguarded
         [of "empty_reading\<lparr>startDeltaP := Fin 5, endDeltaP := Fin 4, decaySeconds := Fin 60\<rparr>"
             "Fin 5" "Fin 4"]
       decay_percentage_unguarded
         [of "empty_reading\<lparr>startDeltaP := Fin (- 5), endDeltaP := Fin (- 5),
                decaySeconds := Fin 60\<rparr>"
             "Fin (- 5)" "Fin (- 5)"]
  show ?thesis
    by (simp add: a b c)
qed

section \<open>Outdoor temperature of the refrigerant-circuit checks\<close>

text \<open>
  Claim C2.  The outdoor temperature that selects the superheat and subcooling ranges
  should be the session's \<open>outdoorTemp\<close> whenever it is present, 0 included.  The
  routine writes \<open>outdoorTemp || data.outdoorDB_F\<close>, and 0 is falsy: with a session
  temperature of 0 and a reading that gives 95 for \<open>outdoorDB_F\<close>, the checks are made
  at 95 (range 8 - 15, a superheat of 16 fails), not at 0 (range 10 - 18, where the
  same superheat passes); the subcooling of 11 passes at either temperature, so the
  overall verdict is negative where the session's temperature would make it positive.
\<close>

theorem zero_session_temperature_falls_through:
  "computeTestResult ''REFRIGERANT_CIRCUIT''
     (empty_reading\<lparr>suctionLineTemp_F := Fin 136, suctionPSI := Fin 100,
        liquidLineTemp_F := Fin 133, liquidPSI := Fin 130, outdoorDB_F := Fin 95\<rparr>)
     (Some \<lparr>outdoorTemp = Fin 0, outdoorRH = Undefined\<rparr>)
   = Inr (computeRefrigerantCircuit
       (empty_reading\<lparr>suctionLineTemp_F := Fin 136, suctionPSI := Fin 100,
          liquidLineTemp_F := Fin 133, liquidPSI := Fin 130, outdoorDB_F := Fin 95\<rparr>) (Fin 0))
   \<and> checks (computeRefrigerantCircuit
       (empty_reading\<lparr>suctionLineTemp_F := Fin 136, suctionPSI := Fin 100,
          liquidLineTemp_F := Fin 133, liquidPSI := Fin 130, outdoorDB_F := Fin 95\<rparr>) (Fin 0))
     = [(''superheat'', checkSuperheat (Fin 16) (Fin 95)),
        (''subcooling'', checkSubcooling (Fin 11) (Fin 95))]
   \<and> chk_target (checkSuperheat (Fin 16) (Fin 95))
       = [Show (Fin 8), Lit '' - '', Show (Fin 15), Uni 176, Lit ''F'']
   \<and> \<not> chk_pass (checkSuperheat (Fin 16) (Fin 95))
   \<and> chk_pass (checkSubcooling (Fin 11) (Fin 95))
   \<and> chk_pass (checkSubcooling (Fin 11) (Fin 0))
   \<and> chk_target (checkSuperheat (Fin 16) (Fin 0))
       = [Show (Fin 10), Lit '' - '', Show (Fin 18), Uni 176, Lit ''F'']
   \<and> chk_pass (checkSuperheat (Fin 16) (Fin 0))"
  apply (intro conjI)
         apply (simp add: computeTestResult_def weather_outdoorTemp_def)
        apply (simp add: computeRefrigerantCircuit_def Let_def or_else_def empty_reading_def
      calculateSuperheat_def calculateSubcooling_def getSaturationTemp_def refrigerant_arg_def
      minus_Fin times_Fin_pos)
       apply (simp add: checkSuperheat_def superheatRange_def default_arg_def Let_def)
      apply (simp add: chk_pass_checkSuperheat superheatRange_def default_arg_def)
     apply (simp add: chk_pass_checkSubcooling subcoolingRange_def default_arg_def)
    apply (simp add: chk_pass_checkSubcooling subcoolingRange_def default_arg_def)
   apply (simp add: checkSuperheat_def superheatRange_def default_arg_def Let_def)
  apply (simp add: chk_pass_checkSuperheat superheatRange_def default_arg_def)
  done

section \<open>Missing fields\<close>




























lemma foldl_min2_NaN: "foldl min2 NaN xs = NaN"
  by (induction xs) (simp_all add: min2_def)








section \<open>Dew point and dry-bulb temperature\<close>

subsection \<open>In exact arithmetic\<close>

lemma magnus_real:
  fixes a b tc L :: real
  assumes a: "0 < a" and b: "0 < b" and pos: "0 < b + tc" and L: "L \<le> 0"
  defines "g \<equiv> L + (a * tc) / (b + tc)"
  shows "0 < a - g"
    and "(b * g) / (a - g) \<le> tc"
    and "L = 0 \<Longrightarrow> (b * g) / (a - g) = tc"
    and "L < 0 \<Longrightarrow> (b * g) / (a - g) < tc"
proof -
  have g0: "a - (a * tc) / (b + tc) = (a * b) / (b + tc)"
    using pos by (simp add: field_simps)
  have "0 < (a * b) / (b + tc)" using pos a b by simp
  with g0 L show den: "0 < a - g" unfolding g_def by linarith
  have key: "g * (b + tc) = L * (b + tc) + a * tc"
    unfolding g_def using pos by (simp add: field_simps)
  have eq: "tc * (a - g) - b * g = - (L * (b + tc))"
    using key by (simp add: algebra_simps)
  have le: "L * (b + tc) \<le> 0" using L pos by (simp add: mult_le_0_iff)
  with eq have "b * g \<le> tc * (a - g)" by linarith
  then show "(b * g) / (a - g) \<le> tc"
    using den by (simp add: pos_divide_le_eq)
  {
    assume "L = 0"
    with eq have "b * g = tc * (a - g)" by simp
    then show "(b * g) / (a - g) = tc" using den by (simp add: field_simps)
  }
  {
    assume "L < 0"
    then have "L * (b + tc) < 0" using pos by (simp add: mult_less_0_iff)
    with eq have "b * g < tc * (a - g)" by linarith
    then show "(b * g) / (a - g) < tc" using den by (simp add: pos_divide_less_eq)
  }
qed

lemma calculateDewPoint_finite:
  fixes T RH :: real
  assumes RH: "0 < RH"
  defines "tc \<equiv> (T - 32) * 5 / 9"
  defines "g \<equiv> ln (RH / 100) + (17.625 * tc) / (243.04 + tc)"
  assumes pos: "0 < 243.04 + tc" and den: "0 < 17.625 - g"
  shows "calculateDewPoint (Fin T) (Fin RH) = Fin ((243.04 * g) / (17.625 - g) * 9 / 5 + 32)"
proof -
  have s1: "(Fin T - Fin 32) * Fin 5 / Fin 9 = Fin tc"
    by (simp add: tc_def minus_Fin times_Fin_pos divide_Fin_pos)
  have s2: "Math_log (Fin RH / Fin 100) = Fin (ln (RH / 100))"
    using RH by simp
  have s3: "(Fin 17.625 * Fin tc) / (Fin 243.04 + Fin tc) = Fin ((17.625 * tc) / (243.04 + tc))"
    using pos by (simp add: times_pos_Fin divide_Fin_pos)
  have s4: "Fin (ln (RH / 100)) + Fin ((17.625 * tc) / (243.04 + tc)) = Fin g"
    by (simp add: g_def)
  have s5: "(Fin 243.04 * Fin g) / (Fin 17.625 - Fin g) = Fin ((243.04 * g) / (17.625 - g))"
    using den by (simp add: minus_Fin times_pos_Fin divide_Fin_pos)
  have s6: "(Fin ((243.04 * g) / (17.625 - g)) * Fin 9 / Fin 5) + Fin 32
            = Fin ((243.04 * g) / (17.625 - g) * 9 / 5 + 32)"
    by (simp add: times_Fin_pos divide_Fin_pos)
  show ?thesis
    unfolding calculateDewPoint_def Let_def s1 s2 s3 s4 s5 s6 ..
qed



subsection \<open>In binary64 arithmetic\<close>


section \<open>Distribution and mixing\<close>

subsection \<open>Statistics of finite values\<close>

lemma min2_Fin: "min2 (Fin a) (Fin b) = Fin (min a b)"
  by (simp add: min2_def min_def)

lemma max2_Fin: "max2 (Fin a) (Fin b) = Fin (max a b)"
  by (simp add: max2_def max_def)

lemma foldl_min2_Fin: "foldl min2 (Fin a) (map Fin ts) = Fin (fold min ts a)"
  by (induction ts arbitrary: a) (simp_all add: min2_Fin min.commute)

lemma foldl_max2_Fin: "foldl max2 (Fin a) (map Fin ts) = Fin (fold max ts a)"
  by (induction ts arbitrary: a) (simp_all add: max2_Fin max.commute)

lemma Math_min_Fin:
  assumes "ts \<noteq> []"
  shows "Math_min (map Fin ts) = Fin (Min (set ts))"
proof (cases ts)
  case Nil
  with assms show ?thesis by simp
next
  case (Cons a list)
  then show ?thesis
    using Min.set_eq_fold [of a list]
    by (simp add: Math_min_def min2_def foldl_min2_Fin)
qed

lemma Math_max_Fin:
  assumes "ts \<noteq> []"
  shows "Math_max (map Fin ts) = Fin (Max (set ts))"
proof (cases ts)
  case Nil
  with assms show ?thesis by simp
next
  case (Cons a list)
  then show ?thesis
    using Max.set_eq_fold [of a list]
    by (simp add: Math_max_def max2_def foldl_max2_Fin)
qed

lemma foldl_plus_Fin:
  "foldl (\<lambda>sum val. sum + val) (Fin a) (map Fin ts) = Fin (a + sum_list ts)"
  by (induction ts arbitrary: a) (simp_all add: add.assoc)

lemma calculateStats_Fin:
  assumes "ts \<noteq> []"
  shows "stat_min (calculateStats (map Fin ts)) = Fin (Min (set ts))"
    and "stat_max (calculateStats (map Fin ts)) = Fin (Max (set ts))"
    and "avg (calculateStats (map Fin ts)) = Fin (sum_list ts / real (length ts))"
  using assms
  by (simp_all add: calculateStats_def Let_def Math_min_Fin Math_max_Fin foldl_plus_Fin
      divide_Fin_pos)

subsection \<open>Dew points of finite samples\<close>

lemma calculateDewPoint_real:
  assumes "- 40 \<le> T" and "0 < RH" and "RH \<le> 100"
  shows "calculateDewPoint (Fin T) (Fin RH) = Fin (dew_point_real T RH)"
proof -
  define tc where "tc = (T - 32) * 5 / 9"
  define L where "L = ln (RH / 100)"
  have tc: "- 40 \<le> tc" using assms(1) by (simp add: tc_def)
  then have pos: "0 < 243.04 + tc" by simp
  have L: "L \<le> 0" using assms(2,3) by (simp add: L_def)
  have den: "0 < 17.625 - (L + (17.625 * tc) / (243.04 + tc))"
    using magnus_real(1) [of "17.625" "243.04" tc L] pos L by simp
  show ?thesis
    using calculateDewPoint_finite [of RH T] assms(2) pos den
    unfolding tc_def L_def dew_point_real_def Let_def by simp
qed

lemma dew_points_real:
  assumes "map db_F samples = map Fin ts" and "map rh_pct samples = map Fin hs"
    and "\<forall>(t, h) \<in> set (zip ts hs). - 40 \<le> t \<and> 0 < h \<and> h \<le> 100"
  shows "map (\<lambda>s. calculateDewPoint (db_F s) (rh_pct s)) samples
           = map Fin (map2 dew_point_real ts hs)"
  using assms
proof (induction samples arbitrary: ts hs)
  case Nil
  then show ?case by simp
next
  case (Cons s samples)
  from Cons.prems(1) obtain t ts' where ts: "ts = t # ts'" "db_F s = Fin t"
    "map db_F samples = map Fin ts'" by (cases ts) auto
  from Cons.prems(2) obtain h hs' where hs: "hs = h # hs'" "rh_pct s = Fin h"
    "map rh_pct samples = map Fin hs'" by (cases hs) auto
  from Cons.prems(3) ts(1) hs(1) have valid: "- 40 \<le> t" "0 < h" "h \<le> 100"
    and rest: "\<forall>(t, h) \<in> set (zip ts' hs'). - 40 \<le> t \<and> 0 < h \<and> h \<le> 100"
    by auto
  from Cons.IH [OF ts(3) hs(3) rest] calculateDewPoint_real [OF valid] ts hs
  show ?case by simp
qed

lemma mixing_rounded_verdict:
  assumes "gridSamples d = Some samples" and "samples \<noteq> []" and "length samples \<le> limit"
  shows "map_sum id pass (computeDistributionMixing_rounded rd limit d)
           = Inr (rd (Math_max (map db_F samples) - Math_min (map db_F samples)) \<le> Fin 5
                  \<and> rd (Math_max (map rh_pct samples) - Math_min (map rh_pct samples)) \<le> Fin 10)"
    and "map_sum id (map (chk_pass \<circ> snd) \<circ> checks) (computeDistributionMixing_rounded rd limit d)
           = Inr [rd (Math_max (map db_F samples) - Math_min (map db_F samples)) \<le> Fin 5,
                  rd (Math_max (map rh_pct samples) - Math_min (map rh_pct samples)) \<le> Fin 10]"
    and "map_sum id (\<lambda>res. map (map_of (calculations res))
             [''temp_min_F'', ''temp_max_F'', ''temp_variation_F'',
              ''rh_min_pct'', ''rh_max_pct'', ''rh_variation_pct''])
           (computeDistributionMixing_rounded rd limit d)
           = Inr [Some (Math_min (map db_F samples)), Some (Math_max (map db_F samples)),
                  Some (rd (Math_max (map db_F samples) - Math_min (map db_F samples))),
                  Some (Math_min (map rh_pct samples)), Some (Math_max (map rh_pct samples)),
                  Some (rd (Math_max (map rh_pct samples) - Math_min (map rh_pct samples)))]"
  using assms
  by (simp_all add: computeDistributionMixing_rounded_def calculateStats_rounded_def Let_def)

lemma mixing_rounded_limit:
  assumes "gridSamples d = Some samples" and "limit < length samples"
  shows "computeDistributionMixing_rounded rd limit d = Inl RangeError"
  using assms
  by (auto simp add: computeDistributionMixing_rounded_def calculateStats_rounded_def Let_def)

subsection \<open>The routine on a grid of finite samples\<close>

text \<open>
  Claim C9, as the specification states it, makes the verdict depend on whether the
  spread is at most the limit.  The program compares the rounded difference of the
  maximum and the minimum.  For two samples with the humidities \<open>12.3\<close> and \<open>2.3\<close> the
  numbers that the literals denote in binary64 differ by more than 10, by \<open>2 ^ - 50\<close>;
  their difference rounds to 10, and \<open>humidity_mixing\<close> and the overall verdict pass.
  In exact arithmetic the same two numbers fail.
\<close>

theorem distribution_mixing_binary64_rounding:
  "binary64 (Fin 12.3) = Fin (6924284427082138 / 2 ^ 49)
   \<and> binary64 (Fin 2.3) = Fin (5179139571476070 / 2 ^ 51)
   \<and> (10 :: real) < 6924284427082138 / 2 ^ 49 - 5179139571476070 / 2 ^ 51
   \<and> map_sum id pass (computeDistributionMixing_rounded binary64 2
        (empty_reading\<lparr>gridSamples := Some
          [\<lparr>db_F = Fin 70, rh_pct = binary64 (Fin 12.3)\<rparr>,
           \<lparr>db_F = Fin 70, rh_pct = binary64 (Fin 2.3)\<rparr>]\<rparr>)) = Inr True
   \<and> map_sum id (map (chk_pass \<circ> snd) \<circ> checks) (computeDistributionMixing_rounded binary64 2
        (empty_reading\<lparr>gridSamples := Some
          [\<lparr>db_F = Fin 70, rh_pct = binary64 (Fin 12.3)\<rparr>,
           \<lparr>db_F = Fin 70, rh_pct = binary64 (Fin 2.3)\<rparr>]\<rparr>)) = Inr [True, True]
   \<and> map_sum id pass (computeDistributionMixing
        (empty_reading\<lparr>gridSamples := Some
          [\<lparr>db_F = Fin 70, rh_pct = Fin (6924284427082138 / 2 ^ 49)\<rparr>,
           \<lparr>db_F = Fin 70, rh_pct = Fin (5179139571476070 / 2 ^ 51)\<rparr>]\<rparr>)) = Inr False"
proof -
  have c1: "binary64 (Fin 12.3) = Fin (6924284427082138 / 2 ^ 49)"
    by (rule binary64_const, rule round64_is [where n = 49 and m = 6924284427082138]) simp_all
  have c2: "binary64 (Fin 2.3) = Fin (5179139571476070 / 2 ^ 51)"
    by (rule binary64_const, rule round64_is [where n = 51 and m = 5179139571476070]) simp_all
  have s3: "binary64 (Fin (6924284427082138 / 2 ^ 49) - Fin (5179139571476070 / 2 ^ 51)) = Fin 10"
    by (rule binary64_minus, rule round64_tie [where n = 49 and m = 5629499534213120]) simp_all
  have s0: "binary64 (Fin 70 - Fin 70) = Fin 0"
    by (simp add: minus_Fin round64_def)
  have hmax: "Math_max [Fin (6924284427082138 / 2 ^ 49), Fin (5179139571476070 / 2 ^ 51)]
                = Fin (6924284427082138 / 2 ^ 49)"
    and hmin: "Math_min [Fin (6924284427082138 / 2 ^ 49), Fin (5179139571476070 / 2 ^ 51)]
                = Fin (5179139571476070 / 2 ^ 51)"
    and tmax: "Math_max [Fin 70, Fin 70] = Fin 70"
    and tmin: "Math_min [Fin 70, Fin 70] = Fin 70"
    using Math_max_Fin [of "[6924284427082138 / 2 ^ 49, 5179139571476070 / 2 ^ 51]"]
      Math_min_Fin [of "[6924284427082138 / 2 ^ 49, 5179139571476070 / 2 ^ 51]"]
      Math_max_Fin [of "[70, 70]"] Math_min_Fin [of "[70, 70]"]
    by simp_all
  let ?d = "empty_reading\<lparr>gridSamples := Some
          [\<lparr>db_F = Fin 70, rh_pct = Fin (6924284427082138 / 2 ^ 49)\<rparr>,
           \<lparr>db_F = Fin 70, rh_pct = Fin (5179139571476070 / 2 ^ 51)\<rparr>]\<rparr>"
  have spread: "(10 :: real) < 6924284427082138 / 2 ^ 49 - 5179139571476070 / 2 ^ 51"
    by simp
  have grid: "gridSamples ?d = Some
          [\<lparr>db_F = Fin 70, rh_pct = Fin (6924284427082138 / 2 ^ 49)\<rparr>,
           \<lparr>db_F = Fin 70, rh_pct = Fin (5179139571476070 / 2 ^ 51)\<rparr>]"
    by simp
  note v = mixing_rounded_verdict [OF grid, where limit = 2]
  have "map_sum id pass (computeDistributionMixing_rounded binary64 2 ?d)
          = Inr (binary64 (Fin 70 - Fin 70) \<le> Fin 5
                 \<and> binary64 (Fin (6924284427082138 / 2 ^ 49) - Fin (5179139571476070 / 2 ^ 51))
                     \<le> Fin 10)"
    by (subst v(1)) (simp_all only: list.map sample.select_convs hmax hmin tmax tmin, simp_all)
  then have p: "map_sum id pass (computeDistributionMixing_rounded binary64 2 ?d) = Inr True"
    by (simp only: s3 s0) simp
  have "map_sum id (map (chk_pass \<circ> snd) \<circ> checks)
             (computeDistributionMixing_rounded binary64 2 ?d)
          = Inr [binary64 (Fin 70 - Fin 70) \<le> Fin 5,
                 binary64 (Fin (6924284427082138 / 2 ^ 49) - Fin (5179139571476070 / 2 ^ 51))
                     \<le> Fin 10]"
    by (subst v(2)) (simp_all only: list.map sample.select_convs hmax hmin tmax tmin, simp_all)
  then have c: "map_sum id (map (chk_pass \<circ> snd) \<circ> checks)
             (computeDistributionMixing_rounded binary64 2 ?d) = Inr [True, True]"
    by (simp only: s3 s0) simp
  have "map_sum id pass (computeDistributionMixing_rounded (\<lambda>v. v) 2 ?d)
          = Inr (Fin 70 - Fin 70 \<le> Fin 5
                 \<and> Fin (6924284427082138 / 2 ^ 49) - Fin (5179139571476070 / 2 ^ 51) \<le> Fin 10)"
    by (subst mixing_rounded_verdict(1) [OF grid, where limit = 2])
      (simp_all only: list.map sample.select_convs hmax hmin tmax tmin, simp_all)
  then have "map_sum id pass (computeDistributionMixing_rounded (\<lambda>v. v) 2 ?d) = Inr False"
    using spread by (simp add: minus_Fin)
  then have e: "map_sum id pass (computeDistributionMixing ?d) = Inr False"
    by (simp add: computeDistributionMixing_rounded_exact)
  from c1 c2 spread p c e show ?thesis by (simp only: simp_thms c1 c2)
qed

text \<open>
  Claim C9, amended.  For a reading whose \<open>gridSamples\<close> is a non-empty list of samples
  with finite temperatures \<open>ts\<close> and humidities \<open>hs\<close>.  In exact arithmetic
  \<open>computeTestResult\<close> returns a result in which: the temperature and humidity entries
  of \<open>calculations\<close> are the minimum, the maximum, the arithmetic mean and the spread
  (maximum minus minimum) of \<open>ts\<close> and of \<open>hs\<close>; when every sample has a temperature of
  at least \<open>-40\<close> and a humidity in \<open>0 < RH \<le> 100\<close>, the dew-point entries are the
  minimum, the maximum and the mean of the Magnus dew points of the samples;
  \<open>temperature_mixing\<close> passes iff the temperature spread is at most 5, \<open>humidity_mixing\<close>
  iff the humidity spread is at most 10, and \<open>pass\<close> iff both do.  In the arithmetic of
  the program, for a grid within the argument limit of the engine, the minima and
  maxima are the same, each spread is the difference rounded to binary64, and the
  verdicts compare the rounded spreads with 5 and 10; a longer grid raises a
  RangeError.  With four samples, a temperature spread of 6 fails and a spread of 4
  passes, in either arithmetic.
\<close>

theorem distribution_mixing:
  assumes "gridSamples rd = Some samples" and "samples \<noteq> []"
    and "map db_F samples = map Fin ts" and "map rh_pct samples = map Fin hs"
  shows "(\<exists>res. computeTestResult ''DISTRIBUTION_MIXING'' rd weather = Inr res
           \<and> pass res = (Max (set ts) - Min (set ts) \<le> 5 \<and> Max (set hs) - Min (set hs) \<le> 10)
           \<and> map fst (checks res) = [''temperature_mixing'', ''humidity_mixing'']
           \<and> map (chk_pass \<circ> snd) (checks res)
               = [Max (set ts) - Min (set ts) \<le> 5, Max (set hs) - Min (set hs) \<le> 10]
           \<and> map fst (calculations res)
               = [''temp_min_F'', ''temp_max_F'', ''temp_avg_F'', ''temp_variation_F'',
                  ''rh_min_pct'', ''rh_max_pct'', ''rh_avg_pct'', ''rh_variation_pct'',
                  ''dp_min_F'', ''dp_max_F'', ''dp_avg_F'', ''return_dp_F'']
           \<and> take 8 (calculations res) =
               [(''temp_min_F'', Fin (Min (set ts))),
                (''temp_max_F'', Fin (Max (set ts))),
                (''temp_avg_F'', Fin (sum_list ts / real (length ts))),
                (''temp_variation_F'', Fin (Max (set ts) - Min (set ts))),
                (''rh_min_pct'', Fin (Min (set hs))),
                (''rh_max_pct'', Fin (Max (set hs))),
                (''rh_avg_pct'', Fin (sum_list hs / real (length hs))),
                (''rh_variation_pct'', Fin (Max (set hs) - Min (set hs)))]
           \<and> ((\<forall>(t, h) \<in> set (zip ts hs). - 40 \<le> t \<and> 0 < h \<and> h \<le> 100) \<longrightarrow>
                drop 8 (calculations res) =
                  [(''dp_min_F'', Fin (Min (set (map2 dew_point_real ts hs)))),
                   (''dp_max_F'', Fin (Max (set (map2 dew_point_real ts hs)))),
                   (''dp_avg_F'', Fin (sum_list (map2 dew_point_real ts hs)
                                        / real (length (map2 dew_point_real ts hs)))),
                   (''return_dp_F'', returnDewPoint_F rd)]))
         \<and> (length samples \<le> limit \<longrightarrow>
              map_sum id pass (computeDistributionMixing_rounded binary64 limit rd)
                = Inr (binary64 (Fin (Max (set ts) - Min (set ts))) \<le> Fin 5
                       \<and> binary64 (Fin (Max (set hs) - Min (set hs))) \<le> Fin 10)
              \<and> map_sum id (map (chk_pass \<circ> snd) \<circ> checks)
                    (computeDistributionMixing_rounded binary64 limit rd)
                = Inr [binary64 (Fin (Max (set ts) - Min (set ts))) \<le> Fin 5,
                       binary64 (Fin (Max (set hs) - Min (set hs))) \<le> Fin 10]
              \<and> map_sum id (\<lambda>res. map (map_of (calculations res))
                      [''temp_min_F'', ''temp_max_F'', ''temp_variation_F'',
                       ''rh_min_pct'', ''rh_max_pct'', ''rh_variation_pct''])
                    (computeDistributionMixing_rounded binary64 limit rd)
                = Inr [Some (Fin (Min (set ts))), Some (Fin (Max (set ts))),
                       Some (binary64 (Fin (Max (set ts) - Min (set ts)))),
                       Some (Fin (Min (set hs))), Some (Fin (Max (set hs))),
                       Some (binary64 (Fin (Max (set hs) - Min (set hs))))])
         \<and> (limit < length samples \<longrightarrow>
              computeDistributionMixing_rounded binary64 limit rd = Inl RangeError)"
proof -
  from assms(2,3) have ts: "ts \<noteq> []" by auto
  from assms(2,4) have hs: "hs \<noteq> []" by auto
  from assms(3,4) have len: "length ts = length samples" "length hs = length samples"
    by (metis length_map)+
  note temp = calculateStats_Fin [OF ts]
  note rh = calculateStats_Fin [OF hs]
  define dews where "dews = map2 dew_point_real ts hs"
  have dews: "dews \<noteq> []"
    using ts hs unfolding dews_def by (cases ts; cases hs) auto
  note dp = calculateStats_Fin [OF dews]
  have exact: "\<exists>res. computeTestResult ''DISTRIBUTION_MIXING'' rd weather = Inr res
           \<and> pass res = (Max (set ts) - Min (set ts) \<le> 5 \<and> Max (set hs) - Min (set hs) \<le> 10)
           \<and> map fst (checks res) = [''temperature_mixing'', ''humidity_mixing'']
           \<and> map (chk_pass \<circ> snd) (checks res)
               = [Max (set ts) - Min (set ts) \<le> 5, Max (set hs) - Min (set hs) \<le> 10]
           \<and> map fst (calculations res)
               = [''temp_min_F'', ''temp_max_F'', ''temp_avg_F'', ''temp_variation_F'',
                  ''rh_min_pct'', ''rh_max_pct'', ''rh_avg_pct'', ''rh_variation_pct'',
                  ''dp_min_F'', ''dp_max_F'', ''dp_avg_F'', ''return_dp_F'']
           \<and> take 8 (calculations res) =
               [(''temp_min_F'', Fin (Min (set ts))),
                (''temp_max_F'', Fin (Max (set ts))),
                (''temp_avg_F'', Fin (sum_list ts / real (length ts))),
                (''temp_variation_F'', Fin (Max (set ts) - Min (set ts))),
                (''rh_min_pct'', Fin (Min (set hs))),
                (''rh_max_pct'', Fin (Max (set hs))),
                (''rh_avg_pct'', Fin (sum_list hs / real (length hs))),
                (''rh_variation_pct'', Fin (Max (set hs) - Min (set hs)))]
           \<and> ((\<forall>(t, h) \<in> set (zip ts hs). - 40 \<le> t \<and> 0 < h \<and> h \<le> 100) \<longrightarrow>
                drop 8 (calculations res) =
                  [(''dp_min_F'', Fin (Min (set dews))),
                   (''dp_max_F'', Fin (Max (set dews))),
                   (''dp_avg_F'', Fin (sum_list dews / real (length dews))),
                   (''return_dp_F'', returnDewPoint_F rd)])"
  proof (cases "\<forall>(t, h) \<in> set (zip ts hs). - 40 \<le> t \<and> 0 < h \<and> h \<le> 100")
    case True
    have dps: "map (\<lambda>s. calculateDewPoint (db_F s) (rh_pct s)) samples = map Fin dews"
      unfolding dews_def by (rule dew_points_real [OF assms(3,4) True])
    show ?thesis
      using assms(1) True
      by (simp add: computeTestResult_def computeDistributionMixing_def Let_def assms(3,4)
          temp rh dps dp minus_Fin)
  next
    case False
    show ?thesis
      using assms(1) False
      by (simp only: split_def)
        (simp add: computeTestResult_def computeDistributionMixing_def Let_def assms(3,4)
          temp rh minus_Fin split_def)
  qed
  have prog: "length samples \<le> limit \<longrightarrow>
              map_sum id pass (computeDistributionMixing_rounded binary64 limit rd)
                = Inr (binary64 (Fin (Max (set ts) - Min (set ts))) \<le> Fin 5
                       \<and> binary64 (Fin (Max (set hs) - Min (set hs))) \<le> Fin 10)
              \<and> map_sum id (map (chk_pass \<circ> snd) \<circ> checks)
                    (computeDistributionMixing_rounded binary64 limit rd)
                = Inr [binary64 (Fin (Max (set ts) - Min (set ts))) \<le> Fin 5,
                       binary64 (Fin (Max (set hs) - Min (set hs))) \<le> Fin 10]
              \<and> map_sum id (\<lambda>res. map (map_of (calculations res))
                      [''temp_min_F'', ''temp_max_F'', ''temp_variation_F'',
                       ''rh_min_pct'', ''rh_max_pct'', ''rh_variation_pct''])
                    (computeDistributionMixing_rounded binary64 limit rd)
                = Inr [Some (Fin (Min (set ts))), Some (Fin (Max (set ts))),
                       Some (binary64 (Fin (Max (set ts) - Min (set ts)))),
                       Some (Fin (Min (set hs))), Some (Fin (Max (set hs))),
                       Some (binary64 (Fin (Max (set hs) - Min (set hs))))]"
  proof
    assume fits: "length samples \<le> limit"
    note v = mixing_rounded_verdict [OF assms(1,2) fits, of binary64]
    show "map_sum id pass (computeDistributionMixing_rounded binary64 limit rd)
                = Inr (binary64 (Fin (Max (set ts) - Min (set ts))) \<le> Fin 5
                       \<and> binary64 (Fin (Max (set hs) - Min (set hs))) \<le> Fin 10)
              \<and> map_sum id (map (chk_pass \<circ> snd) \<circ> checks)
                    (computeDistributionMixing_rounded binary64 limit rd)
                = Inr [binary64 (Fin (Max (set ts) - Min (set ts))) \<le> Fin 5,
                       binary64 (Fin (Max (set hs) - Min (set hs))) \<le> Fin 10]
              \<and> map_sum id (\<lambda>res. map (map_of (calculations res))
                      [''temp_min_F'', ''temp_max_F'', ''temp_variation_F'',
                       ''rh_min_pct'', ''rh_max_pct'', ''rh_variation_pct''])
                    (computeDistributionMixing_rounded binary64 limit rd)
                = Inr [Some (Fin (Min (set ts))), Some (Fin (Max (set ts))),
                       Some (binary64 (Fin (Max (set ts) - Min (set ts)))),
                       Some (Fin (Min (set hs))), Some (Fin (Max (set hs))),
                       Some (binary64 (Fin (Max (set hs) - Min (set hs))))]"
      unfolding v
      by (simp add: assms(3,4) Math_max_Fin [OF ts] Math_min_Fin [OF ts]
          Math_max_Fin [OF hs] Math_min_Fin [OF hs] minus_Fin)
  qed
  have over: "limit < length samples \<longrightarrow>
              computeDistributionMixing_rounded binary64 limit rd = Inl RangeError"
    using mixing_rounded_limit [OF assms(1)] by blast
  from exact prog over show ?thesis unfolding dews_def by blast
qed


theorem distribution_mixing_witness:
  "(\<exists>res. computeTestResult ''DISTRIBUTION_MIXING''
       (empty_reading\<lparr>gridSamples := Some
          [\<lparr>db_F = Fin 70, rh_pct = Fin 50\<rparr>, \<lparr>db_F = Fin 72, rh_pct = Fin 52\<rparr>,
           \<lparr>db_F = Fin 74, rh_pct = Fin 55\<rparr>, \<lparr>db_F = Fin 76, rh_pct = Fin 53\<rparr>]\<rparr>) None = Inr res
      \<and> \<not> pass res
      \<and> map fst (checks res) = [''temperature_mixing'', ''humidity_mixing'']
      \<and> map (chk_pass \<circ> snd) (checks res) = [False, True])
   \<and> (\<exists>res. computeTestResult ''DISTRIBUTION_MIXING''
       (empty_reading\<lparr>gridSamples := Some
          [\<lparr>db_F = Fin 70, rh_pct = Fin 50\<rparr>, \<lparr>db_F = Fin 71, rh_pct = Fin 52\<rparr>,
           \<lparr>db_F = Fin 73, rh_pct = Fin 55\<rparr>, \<lparr>db_F = Fin 74, rh_pct = Fin 53\<rparr>]\<rparr>) None = Inr res
      \<and> pass res
      \<and> map fst (checks res) = [''temperature_mixing'', ''humidity_mixing'']
      \<and> map (chk_pass \<circ> snd) (checks res) = [True, True])
   \<and> (\<exists>res. computeTestResult ''DISTRIBUTION_MIXING''
       (empty_reading\<lparr>gridSamples := Some
          [\<lparr>db_F = Fin 70, rh_pct = Fin 100\<rparr>, \<lparr>db_F = Fin 74, rh_pct = Fin 100\<rparr>]\<rparr>) None = Inr res
      \<and> pass res
      \<and> take 8 (calculations res) =
          [(''temp_min_F'', Fin 70), (''temp_max_F'', Fin 74), (''temp_avg_F'', Fin 72),
           (''temp_variation_F'', Fin 4),
           (''rh_min_pct'', Fin 100), (''rh_max_pct'', Fin 100), (''rh_avg_pct'', Fin 100),
           (''rh_variation_pct'', Fin 0)]
      \<and> drop 8 (calculations res) =
          [(''dp_min_F'', Fin 70), (''dp_max_F'', Fin 74), (''dp_avg_F'', Fin 72),
           (''return_dp_F'', Undefined)])
   \<and> map_sum id (map (chk_pass \<circ> snd) \<circ> checks) (computeDistributionMixing_rounded binary64 4
       (empty_reading\<lparr>gridSamples := Some
          [\<lparr>db_F = Fin 70, rh_pct = Fin 50\<rparr>, \<lparr>db_F = Fin 72, rh_pct = Fin 52\<rparr>,
           \<lparr>db_F = Fin 74, rh_pct = Fin 55\<rparr>, \<lparr>db_F = Fin 76, rh_pct = Fin 53\<rparr>]\<rparr>))
       = Inr [False, True]
   \<and> map_sum id pass (computeDistributionMixing_rounded binary64 4
       (empty_reading\<lparr>gridSamples := Some
          [\<lparr>db_F = Fin 70, rh_pct = Fin 50\<rparr>, \<lparr>db_F = Fin 71, rh_pct = Fin 52\<rparr>,
           \<lparr>db_F = Fin 73, rh_pct = Fin 55\<rparr>, \<lparr>db_F = Fin 74, rh_pct = Fin 53\<rparr>]\<rparr>))
       = Inr True
   \<and> computeDistributionMixing_rounded binary64 3
       (empty_reading\<lparr>gridSamples := Some
          [\<lparr>db_F = Fin 70, rh_pct = Fin 50\<rparr>, \<lparr>db_F = Fin 71, rh_pct = Fin 52\<rparr>,
           \<lparr>db_F = Fin 73, rh_pct = Fin 55\<rparr>, \<lparr>db_F = Fin 74, rh_pct = Fin 53\<rparr>]\<rparr>)
       = Inl RangeError"
proof -
  let ?six = "[\<lparr>db_F = Fin 70, rh_pct = Fin 50\<rparr>, \<lparr>db_F = Fin 72, rh_pct = Fin 52\<rparr>,
               \<lparr>db_F = Fin 74, rh_pct = Fin 55\<rparr>, \<lparr>db_F = Fin 76, rh_pct = Fin 53\<rparr>]"
  let ?four = "[\<lparr>db_F = Fin 70, rh_pct = Fin 50\<rparr>, \<lparr>db_F = Fin 71, rh_pct = Fin 52\<rparr>,
                \<lparr>db_F = Fin 73, rh_pct = Fin 55\<rparr>, \<lparr>db_F = Fin 74, rh_pct = Fin 53\<rparr>]"
  let ?sat = "[\<lparr>db_F = Fin 70, rh_pct = Fin 100\<rparr>, \<lparr>db_F = Fin 74, rh_pct = Fin 100\<rparr>]"
  have six: "\<exists>res. computeTestResult ''DISTRIBUTION_MIXING''
       (empty_reading\<lparr>gridSamples := Some ?six\<rparr>) None = Inr res
      \<and> \<not> pass res
      \<and> map fst (checks res) = [''temperature_mixing'', ''humidity_mixing'']
      \<and> map (chk_pass \<circ> snd) (checks res) = [False, True]"
    using distribution_mixing [of "empty_reading\<lparr>gridSamples := Some ?six\<rparr>" ?six
        "[70, 72, 74, 76]" "[50, 52, 55, 53]" None 4]
    by auto
  have four: "\<exists>res. computeTestResult ''DISTRIBUTION_MIXING''
       (empty_reading\<lparr>gridSamples := Some ?four\<rparr>) None = Inr res
      \<and> pass res
      \<and> map fst (checks res) = [''temperature_mixing'', ''humidity_mixing'']
      \<and> map (chk_pass \<circ> snd) (checks res) = [True, True]"
    using distribution_mixing [of "empty_reading\<lparr>gridSamples := Some ?four\<rparr>" ?four
        "[70, 71, 73, 74]" "[50, 52, 55, 53]" None 4]
    by auto
  have d70: "dew_point_real 70 100 = 70" and d74: "dew_point_real 74 100 = 74"
    by (simp_all add: dew_point_real_def Let_def)
  have sat: "\<exists>res. computeTestResult ''DISTRIBUTION_MIXING''
       (empty_reading\<lparr>gridSamples := Some ?sat\<rparr>) None = Inr res
      \<and> pass res
      \<and> take 8 (calculations res) =
          [(''temp_min_F'', Fin 70), (''temp_max_F'', Fin 74), (''temp_avg_F'', Fin 72),
           (''temp_variation_F'', Fin 4),
           (''rh_min_pct'', Fin 100), (''rh_max_pct'', Fin 100), (''rh_avg_pct'', Fin 100),
           (''rh_variation_pct'', Fin 0)]
      \<and> drop 8 (calculations res) =
          [(''dp_min_F'', Fin 70), (''dp_max_F'', Fin 74), (''dp_avg_F'', Fin 72),
           (''return_dp_F'', Undefined)]"
    using distribution_mixing [of "empty_reading\<lparr>gridSamples := Some ?sat\<rparr>" ?sat
        "[70, 74]" "[100, 100]" None 2]
    by (auto simp: d70 d74 empty_reading_def)
  have r4: "round64 4 = Fin 4"
    by (rule round64_is [where n = 50 and m = 4503599627370496]) simp_all
  have r5: "round64 5 = Fin 5"
    by (rule round64_is [where n = 50 and m = 5629499534213120]) simp_all
  have r6: "round64 6 = Fin 6"
    by (rule round64_is [where n = 50 and m = 6755399441055744]) simp_all
  have six64: "map_sum id (map (chk_pass \<circ> snd) \<circ> checks) (computeDistributionMixing_rounded binary64 4
       (empty_reading\<lparr>gridSamples := Some ?six\<rparr>)) = Inr [False, True]"
    using distribution_mixing [of "empty_reading\<lparr>gridSamples := Some ?six\<rparr>" ?six
        "[70, 72, 74, 76]" "[50, 52, 55, 53]" None 4]
    by (simp add: r5 r6)
  have four64: "map_sum id pass (computeDistributionMixing_rounded binary64 4
       (empty_reading\<lparr>gridSamples := Some ?four\<rparr>)) = Inr True"
    using distribution_mixing [of "empty_reading\<lparr>gridSamples := Some ?four\<rparr>" ?four
        "[70, 71, 73, 74]" "[50, 52, 55, 53]" None 4]
    by (simp add: r4 r5)
  have over: "computeDistributionMixing_rounded binary64 3
       (empty_reading\<lparr>gridSamples := Some ?four\<rparr>) = Inl RangeError"
    using distribution_mixing [of "empty_reading\<lparr>gridSamples := Some ?four\<rparr>" ?four
        "[70, 71, 73, 74]" "[50, 52, 55, 53]" None 3]
    by simp
  from six four sat six64 four64 over show ?thesis by (simp only: simp_thms)
qed

end
